theory Spec2Isabelle
  imports Main "HOL-Library.Word"
begin

section \<open>Strings as the JavaScript code uses them\<close>

text \<open>
  Header names and values reach the code as Latin-1 strings (Node decodes HTTP headers
  that way), so a string is a list of 8-bit characters.  The functions below are the
  string methods the source calls, restricted to that character range.
\<close>

text \<open>\<^verbatim>\<open>String.prototype.trim\<close> removes white space and line terminators; in the
  Latin-1 range these are TAB, LF, VT, FF, CR, SPACE and NBSP.\<close>

definition js_is_ws :: "char \<Rightarrow> bool" where
  "js_is_ws c = (c \<in> set [CHR 0x09, CHR 0x0A, CHR 0x0B, CHR 0x0C, CHR 0x0D, CHR 0x20, CHR 0xA0])"

definition trim :: "string \<Rightarrow> string" where
  "trim s = rev (dropWhile js_is_ws (rev (dropWhile js_is_ws s)))"

text \<open>\<^verbatim>\<open>toLowerCase\<close>: the upper-case letters of Latin-1 are A-Z (65-90) and the
  accented capitals 192-222 without the multiplication sign 215.  Their lower-case
  forms lie 32 higher; bit 5 is clear on both ranges, so adding 32 is setting bit 5.\<close>

definition is_upper :: "char \<Rightarrow> bool" where
  "is_upper c =
     (let n = (of_char c :: nat) in
      (65 \<le> n \<and> n \<le> 90) \<or> (192 \<le> n \<and> n \<le> 222 \<and> n \<noteq> 215))"

definition lower_char :: "char \<Rightarrow> char" where
  "lower_char c =
     (if is_upper c
      then (case c of Char b0 b1 b2 b3 b4 b5 b6 b7 \<Rightarrow> Char b0 b1 b2 b3 b4 True b6 b7)
      else c)"

definition toLowerCase :: "string \<Rightarrow> string" where
  "toLowerCase s = map lower_char s"

text \<open>\<^verbatim>\<open>toUpperCase\<close> on the letters a-z and the accented small letters 224-254
  without the division sign 247.  (The sharp s, the micro sign and y-diaeresis have
  upper-case forms outside Latin-1; they are left alone here.  The source only compares
  the upper-cased method with POST and PUT, which none of the three can produce.)\<close>

definition is_lower :: "char \<Rightarrow> bool" where
  "is_lower c =
     (let n = (of_char c :: nat) in
      (97 \<le> n \<and> n \<le> 122) \<or> (224 \<le> n \<and> n \<le> 254 \<and> n \<noteq> 247))"

definition upper_char :: "char \<Rightarrow> char" where
  "upper_char c =
     (if is_lower c
      then (case c of Char b0 b1 b2 b3 b4 b5 b6 b7 \<Rightarrow> Char b0 b1 b2 b3 b4 False b6 b7)
      else c)"

definition toUpperCase :: "string \<Rightarrow> string" where
  "toUpperCase s = map upper_char s"

text \<open>\<^verbatim>\<open>s.split(sep)\<close> for a one-character separator: always at least one piece,
  empty pieces kept.\<close>

fun split_on :: "char \<Rightarrow> string \<Rightarrow> string list" where
  "split_on sep [] = [[]]"
| "split_on sep (c # cs) =
     (if c = sep then [] # split_on sep cs
      else (case split_on sep cs of
              [] \<Rightarrow> [[c]]
            | p # ps \<Rightarrow> (c # p) # ps))"

text \<open>\<^verbatim>\<open>pieces.join(sep)\<close>.\<close>

fun join :: "string \<Rightarrow> string list \<Rightarrow> string" where
  "join sep [] = []"
| "join sep [x] = x"
| "join sep (x # y # ys) = x @ sep @ join sep (y # ys)"

definition startsWith :: "string \<Rightarrow> string \<Rightarrow> bool" where
  "startsWith s p = (take (length p) s = p)"

definition endsWith :: "string \<Rightarrow> string \<Rightarrow> bool" where
  "endsWith s p = (length p \<le> length s \<and> drop (length s - length p) s = p)"

text \<open>\<^verbatim>\<open>s.includes(needle)\<close> on strings: a substring test.\<close>

fun str_includes :: "string \<Rightarrow> string \<Rightarrow> bool" where
  "str_includes [] needle = (needle = [])"
| "str_includes (c # cs) needle =
     (take (length needle) (c # cs) = needle \<or> str_includes cs needle)"

text \<open>A JavaScript object with string-valued properties, in insertion order.
  Reading an absent property gives \<^verbatim>\<open>undefined\<close>, here \<open>None\<close>; writing an
  existing property keeps its place.\<close>

type_synonym js_object = "(string \<times> string) list"

definition obj_get :: "js_object \<Rightarrow> string \<Rightarrow> string option" where
  "obj_get obj k = map_of obj k"

fun obj_set :: "js_object \<Rightarrow> string \<Rightarrow> string \<Rightarrow> js_object" where
  "obj_set [] k v = [(k, v)]"
| "obj_set ((k', v') # obj) k v =
     (if k' = k then (k, v) # obj else (k', v') # obj_set obj k v)"

text \<open>\<^verbatim>\<open>Object.assign(target, source)\<close> and the spread \<^verbatim>\<open>{...a, k: v}\<close>.\<close>

definition obj_assign :: "js_object \<Rightarrow> js_object \<Rightarrow> js_object" where
  "obj_assign target source = fold (\<lambda>(k, v) obj. obj_set obj k v) source target"

text \<open>Truthiness of a possibly undefined string: defined and not empty.\<close>

fun truthy :: "string option \<Rightarrow> bool" where
  "truthy None = False"
| "truthy (Some s) = (s \<noteq> [])"

text \<open>A template literal prints an undefined value as the word \<^verbatim>\<open>undefined\<close>.\<close>

fun template :: "string option \<Rightarrow> string" where
  "template None = ''undefined''"
| "template (Some s) = s"

section \<open>JSON values\<close>

datatype json =
    JUndefined
  | JNull
  | JBool bool
  | JNum int
  | JStr string
  | JArr "json list"
  | JObj "(string \<times> json) list"

fun json_truthy :: "json \<Rightarrow> bool" where
  "json_truthy JUndefined = False"
| "json_truthy JNull = False"
| "json_truthy (JBool b) = b"
| "json_truthy (JNum n) = (n \<noteq> 0)"
| "json_truthy (JStr s) = (s \<noteq> [])"
| "json_truthy (JArr xs) = True"
| "json_truthy (JObj kvs) = True"

section \<open>The Signature header: \<^verbatim>\<open>parseSignatureHeader\<close> and the wire format\<close>

text \<open>\<^verbatim>\<open>value.replace(/^"/, '').replace(/"$/, '')\<close>: one leading double quote is
  removed, then one trailing double quote.\<close>

definition strip_leading_quote :: "string \<Rightarrow> string" where
  "strip_leading_quote s = (case s of [] \<Rightarrow> [] | c # cs \<Rightarrow> if c = CHR 0x22 then cs else s)"

definition strip_trailing_quote :: "string \<Rightarrow> string" where
  "strip_trailing_quote s = (if s \<noteq> [] \<and> last s = CHR 0x22 then butlast s else s)"

text \<open>One element of \<^verbatim>\<open>headerValue.split(',')\<close>: \<^verbatim>\<open>const [key, value] = pair.split('=')\<close>
  takes the first two pieces of the split and drops the others; the pair is stored
  when both are non-empty.\<close>

definition parse_pair :: "string \<Rightarrow> (string \<times> string) option" where
  "parse_pair pair =
     (case split_on (CHR ''='') pair of
        key # value # rest \<Rightarrow>
          if key \<noteq> [] \<and> value \<noteq> []
          then Some (trim key, strip_trailing_quote (strip_leading_quote (trim value)))
          else None
      | _ \<Rightarrow> None)"

definition parseSignatureHeader :: "string option \<Rightarrow> (string \<rightharpoonup> string) option" where
  "parseSignatureHeader header =
     (case header of
        None \<Rightarrow> None
      | Some h \<Rightarrow>
          if h = [] then None
          else
            let headerValue = (if startsWith h ''Signature '' then drop 10 h else h)
            in Some (fold (\<lambda>pair signature.
                             case parse_pair pair of
                               None \<Rightarrow> signature
                             | Some (k, v) \<Rightarrow> signature(k \<mapsto> v))
                          (split_on (CHR '','') headerValue) Map.empty))"

text \<open>The template of \<^verbatim>\<open>createSignature\<close> that writes the header (line 169 of
  httpSignature.js), with its four slots.\<close>

definition signatureHeader :: "string \<Rightarrow> string \<Rightarrow> string \<Rightarrow> string \<Rightarrow> string" where
  "signatureHeader keyId algorithm headers signature =
     ''keyId='' @ [CHR 0x22] @ keyId @ [CHR 0x22] @
     '',algorithm='' @ [CHR 0x22] @ algorithm @ [CHR 0x22] @
     '',headers='' @ [CHR 0x22] @ headers @ [CHR 0x22] @
     '',signature='' @ [CHR 0x22] @ signature @ [CHR 0x22]"

text \<open>Decoding a header and writing the four parameters back with the same template:
  the codec round trip of the specification.  Both steps are the source's.\<close>

definition reencode :: "string \<Rightarrow> string option" where
  "reencode header =
     (case parseSignatureHeader (Some header) of
        None \<Rightarrow> None
      | Some signature \<Rightarrow>
          (case (signature ''keyId'', signature ''algorithm'',
                 signature ''headers'', signature ''signature'') of
             (Some k, Some a, Some h, Some s) \<Rightarrow>
               Some (signatureHeader k a (join '' '' (split_on (CHR '' '') h)) s)
           | _ \<Rightarrow> None))"

section \<open>The platform: what Node, Express and Prisma provide\<close>

text \<open>
  The library functions the code calls are parameters of the model; nothing is assumed
  about them.  A call that can throw returns a sum, \<open>Inl\<close> carrying the message.
  \<^item> \<open>crypto_sign algorithm data key padding\<close> is \<^verbatim>\<open>crypto.sign\<close> and
    \<open>crypto_verify algorithm data key padding signature\<close> is \<^verbatim>\<open>crypto.verify\<close>
    (\<open>data\<close> is the string handed to \<^verbatim>\<open>Buffer.from\<close>);
  \<^item> \<open>base64_encode\<close> is \<^verbatim>\<open>buffer.toString('base64')\<close> and \<open>base64_decode\<close> is
    \<^verbatim>\<open>Buffer.from(s, 'base64')\<close>;
  \<^item> \<open>sha256_base64 s\<close> is \<^verbatim>\<open>crypto.createHash('sha256').update(s).digest('base64')\<close>;
  \<^item> \<open>URL_parse url\<close> gives \<open>(pathname, search)\<close> of \<^verbatim>\<open>new URL(url)\<close>, \<open>None\<close> when
    the constructor throws (\<open>url\<close> is \<open>None\<close> for \<^verbatim>\<open>undefined\<close>);
  \<^item> \<open>Date_toUTCString\<close> is \<^verbatim>\<open>new Date().toUTCString()\<close>;
  \<^item> \<open>randomUUID\<close> is \<^verbatim>\<open>crypto.randomUUID()\<close> through the global \<^verbatim>\<open>crypto\<close>, \<open>None\<close>
    where the runtime has no such global and the call throws.
  A key handed to \<^verbatim>\<open>crypto.sign\<close> may be \<^verbatim>\<open>undefined\<close>, here \<open>None\<close>.
\<close>

datatype padding = RSA_PKCS1_PADDING | RSA_PKCS1_PSS_PADDING

type_synonym bytes = "8 word list"

record platform =
  crypto_sign :: "string \<Rightarrow> string \<Rightarrow> string option \<Rightarrow> padding \<Rightarrow> string + bytes"
  crypto_verify :: "string \<Rightarrow> string \<Rightarrow> string \<Rightarrow> padding \<Rightarrow> bytes \<Rightarrow> string + bool"
  base64_encode :: "bytes \<Rightarrow> string"
  base64_decode :: "string \<Rightarrow> bytes"
  sha256_base64 :: "string \<Rightarrow> string"
  JSON_stringify :: "json \<Rightarrow> string"
  URL_parse :: "string option \<Rightarrow> (string \<times> string) option"
  Date_toUTCString :: string
  randomUUID :: "string option"

text \<open>An inbound request as Express presents it: \<^verbatim>\<open>req.method\<close>, \<^verbatim>\<open>req.path\<close>
  (the URL's path without the query string) and the headers, whose names Node has
  lower-cased.\<close>

record request =
  req_method :: string
  req_path :: string
  req_headers :: js_object

text \<open>\<^verbatim>\<open>req.get(name)\<close> of Express: a lookup by the lower-cased name, where
  \<^verbatim>\<open>referer\<close> and \<^verbatim>\<open>referrer\<close> name the same header.  Called with the empty
  string it throws instead; the one caller that can pass an empty name, the verifier's
  loop over the header list, tests for it before the call.

  \<^verbatim>\<open>req.headers\<close> is a plain object, so \<^verbatim>\<open>this.headers[lc]\<close> for a header that was not
  sent still finds what the object inherits: of the properties of \<^verbatim>\<open>Object.prototype\<close>
  only \<^verbatim>\<open>constructor\<close> and \<^verbatim>\<open>__proto__\<close> have names in lower case.  \<open>inherited\<close> gives
  them as a template literal prints them.\<close>

definition inherited :: "string \<Rightarrow> string option" where
  "inherited k =
     (if k = ''constructor'' then Some ''function Object() { [native code] }''
      else if k = ''__proto__'' then Some ''[object Object]''
      else None)"

definition headers_get :: "js_object \<Rightarrow> string \<Rightarrow> string option" where
  "headers_get hs k = (case obj_get hs k of Some v \<Rightarrow> Some v | None \<Rightarrow> inherited k)"

definition req_get :: "request \<Rightarrow> string \<Rightarrow> string option" where
  "req_get req name =
     (let lc = toLowerCase name in
      if lc = ''referer'' \<or> lc = ''referrer''
      then (if truthy (headers_get (req_headers req) ''referrer'')
            then headers_get (req_headers req) ''referrer''
            else headers_get (req_headers req) ''referer'')
      else headers_get (req_headers req) lc)"

text \<open>The rows of \<^verbatim>\<open>prisma.user\<close>, with the two columns the verifier reads.\<close>

record user =
  actorUrl :: string
  publicKey :: "string option"

section \<open>\<^verbatim>\<open>verifySignature\<close>\<close>

text \<open>Each \<^verbatim>\<open>throw new Error(...)\<close> of the function is a constructor; the
  \<^verbatim>\<open>catch\<close> turns it into \<^verbatim>\<open>{verified: false, error: message}\<close>.\<close>

datatype verify_error =
    NoSignatureHeader
  | MissingSignatureParameter string
  | ActorNotFound string
  | MissingSignedHeader string
  | NameRequired
  | CryptoError string
  | InvalidSignature

fun error_message :: "verify_error \<Rightarrow> string" where
  "error_message NoSignatureHeader = ''No signature header''"
| "error_message (MissingSignatureParameter p) = ''Missing required signature parameter: '' @ p"
| "error_message (ActorNotFound k) = ''Actor not found or has no public key: '' @ k"
| "error_message (MissingSignedHeader h) = ''Missing required header in signature: '' @ h"
| "error_message NameRequired = ''name argument is required to req.get''"
| "error_message (CryptoError m) = m"
| "error_message InvalidSignature = ''Invalid signature''"

text \<open>The value returned on success, \<^verbatim>\<open>{verified: true, keyId, algorithm, headers}\<close>.\<close>

record verification =
  keyId :: string
  algorithm :: string
  headers :: string

definition requiredParams :: "string list" where
  "requiredParams = [''keyId'', ''algorithm'', ''headers'', ''signature'']"

text \<open>One element of the \<^verbatim>\<open>headersToSign.map(...)\<close> of the verifier.  An empty
  name (two spaces in a row in the header list) makes \<^verbatim>\<open>req.get\<close> throw its own
  TypeError.\<close>

definition verify_line :: "request \<Rightarrow> string \<Rightarrow> verify_error + string" where
  "verify_line req header =
     (if header = ''(request-target)''
      then Inr (''(request-target): '' @ toLowerCase (req_method req) @ '' '' @ req_path req)
      else if header = [] then Inl NameRequired
      else
        let v = req_get req (toLowerCase header) in
        if \<not> truthy v then Inl (MissingSignedHeader header)
        else Inr (toLowerCase header @ '': '' @ template v))"

text \<open>The \<^verbatim>\<open>map\<close> stops at the first element that throws.\<close>

fun verify_lines :: "request \<Rightarrow> string list \<Rightarrow> verify_error + string list" where
  "verify_lines req [] = Inr []"
| "verify_lines req (h # hs) =
     (case verify_line req h of
        Inl e \<Rightarrow> Inl e
      | Inr l \<Rightarrow> (case verify_lines req hs of Inl e \<Rightarrow> Inl e | Inr ls \<Rightarrow> Inr (l # ls)))"

definition verify_signingString :: "request \<Rightarrow> string list \<Rightarrow> verify_error + string" where
  "verify_signingString req headersToSign =
     (case verify_lines req headersToSign of
        Inl e \<Rightarrow> Inl e
      | Inr ls \<Rightarrow> Inr (join [CHR 0x0A] ls))"

text \<open>\<^verbatim>\<open>prisma.user.findFirst({where: {actorUrl: keyId}, select: {publicKey: true}})\<close>
  followed by the test \<^verbatim>\<open>!actor || !actor.publicKey\<close>.\<close>

definition findPublicKey :: "user list \<Rightarrow> string \<Rightarrow> string option" where
  "findPublicKey users k =
     (case find (\<lambda>u. actorUrl u = k) users of
        None \<Rightarrow> None
      | Some actor \<Rightarrow> if truthy (publicKey actor) then publicKey actor else None)"

text \<open>The body of \<^verbatim>\<open>verifySignature\<close> after the header has been parsed.\<close>

definition verifyParsed ::
  "platform \<Rightarrow> user list \<Rightarrow> request \<Rightarrow> (string \<rightharpoonup> string) \<Rightarrow> verify_error + verification" where
  "verifyParsed pf users req signature =
     (case find (\<lambda>param. \<not> truthy (signature param)) requiredParams of
        Some param \<Rightarrow> Inl (MissingSignatureParameter param)
      | None \<Rightarrow>
          let k = template (signature ''keyId'') in
          (case findPublicKey users k of
             None \<Rightarrow> Inl (ActorNotFound k)
           | Some pk \<Rightarrow>
               (case verify_signingString req
                       (split_on (CHR '' '') (template (signature ''headers''))) of
                  Inl e \<Rightarrow> Inl e
                | Inr signingString \<Rightarrow>
                    (case crypto_verify pf ''sha256'' signingString pk RSA_PKCS1_PSS_PADDING
                            (base64_decode pf (template (signature ''signature''))) of
                       Inl m \<Rightarrow> Inl (CryptoError m)
                     | Inr isValid \<Rightarrow>
                         if \<not> isValid then Inl InvalidSignature
                         else Inr \<lparr>keyId = k,
                                   algorithm = template (signature ''algorithm''),
                                   headers = template (signature ''headers'')\<rparr>))))"

definition verifySignature ::
  "platform \<Rightarrow> user list \<Rightarrow> request \<Rightarrow> verify_error + verification" where
  "verifySignature pf users req =
     (case parseSignatureHeader (req_get req ''signature'') of
        None \<Rightarrow> Inl NoSignatureHeader
      | Some signature \<Rightarrow> verifyParsed pf users req signature)"

section \<open>The middleware \<^verbatim>\<open>httpSignature\<close>\<close>

text \<open>The middleware either calls \<^verbatim>\<open>next()\<close> (with \<^verbatim>\<open>req.signature\<close> set when the
  signature was verified) or answers with a status and the body
  \<^verbatim>\<open>{error, details}\<close>.  \<open>env\<close> is \<^verbatim>\<open>process.env\<close>.\<close>

datatype middleware_result =
    Next "verification option"
  | Respond nat string string

definition httpSignature ::
  "platform \<Rightarrow> user list \<Rightarrow> (string \<rightharpoonup> string) \<Rightarrow> request \<Rightarrow> middleware_result" where
  "httpSignature pf users env req =
     (if env ''NODE_ENV'' = Some ''development'' \<and>
         env ''SKIP_SIGNATURE_VERIFICATION'' = Some ''true''
      then Next None
      else
        (case verifySignature pf users req of
           Inl e \<Rightarrow> Respond 401 ''Invalid signature'' (error_message e)
         | Inr result \<Rightarrow> Next (Some result)))"

section \<open>\<^verbatim>\<open>createSignature\<close>\<close>

text \<open>The \<^verbatim>\<open>options\<close> argument; an absent property is \<open>None\<close> and takes the default
  of the destructuring (\<^verbatim>\<open>method = 'POST'\<close>, \<^verbatim>\<open>headers = {}\<close>, \<^verbatim>\<open>body = ''\<close>).\<close>

record sign_options =
  opt_method :: "string option"
  opt_url :: "string option"
  opt_headers :: "js_object option"
  opt_body :: "json option"

datatype sign_error = InvalidURL | SignError string

text \<open>The value returned, \<^verbatim>\<open>{signature: signatureHeader, headers: {...}}\<close>, and, for
  the statements below, the string that was signed.\<close>

record signed =
  sig_header :: string
  sig_headers :: js_object
  sig_signingString :: string

text \<open>The headers after the date and the digest have been added.\<close>

definition create_headers :: "platform \<Rightarrow> sign_options \<Rightarrow> js_object" where
  "create_headers pf opts =
     (let method = (case opt_method opts of None \<Rightarrow> ''POST'' | Some m \<Rightarrow> m);
          headers0 = (case opt_headers opts of None \<Rightarrow> [] | Some h \<Rightarrow> h);
          body = (case opt_body opts of None \<Rightarrow> JStr [] | Some b \<Rightarrow> b);
          headers1 = (if \<not> truthy (obj_get headers0 ''date'')
                      then obj_set headers0 ''date'' (Date_toUTCString pf) else headers0)
      in if toUpperCase method \<in> set [''POST'', ''PUT''] \<and> json_truthy body
         then obj_set headers1 ''digest''
                (''SHA-256='' @ sha256_base64 pf (JSON_stringify pf body))
         else headers1)"

definition create_headersToSign :: "js_object \<Rightarrow> string list" where
  "create_headersToSign hs =
     [''(request-target)'', ''host'', ''date''] @
     (if truthy (obj_get hs ''digest'') then [''digest''] else [])"

text \<open>One element of the \<^verbatim>\<open>headersToSign.map(...)\<close> of the signer; only
  \<^verbatim>\<open>new URL(url)\<close> can throw.\<close>

definition create_line ::
  "platform \<Rightarrow> string \<Rightarrow> string option \<Rightarrow> js_object \<Rightarrow> string \<Rightarrow> sign_error + string" where
  "create_line pf method url hs header =
     (if header = ''(request-target)''
      then (case URL_parse pf url of
              None \<Rightarrow> Inl InvalidURL
            | Some (pathname, search) \<Rightarrow>
                Inr (''(request-target): '' @ toLowerCase method @ '' '' @ pathname @ search))
      else Inr (header @ '': '' @ template (obj_get hs header)))"

fun create_lines ::
  "platform \<Rightarrow> string \<Rightarrow> string option \<Rightarrow> js_object \<Rightarrow> string list \<Rightarrow> sign_error + string list" where
  "create_lines pf method url hs [] = Inr []"
| "create_lines pf method url hs (h # rest) =
     (case create_line pf method url hs h of
        Inl e \<Rightarrow> Inl e
      | Inr l \<Rightarrow> (case create_lines pf method url hs rest of
                    Inl e \<Rightarrow> Inl e
                  | Inr ls \<Rightarrow> Inr (l # ls)))"

definition create_signingString ::
  "platform \<Rightarrow> string \<Rightarrow> string option \<Rightarrow> js_object \<Rightarrow> string list \<Rightarrow> sign_error + string" where
  "create_signingString pf method url hs headersToSign =
     (case create_lines pf method url hs headersToSign of
        Inl e \<Rightarrow> Inl e
      | Inr ls \<Rightarrow> Inr (join [CHR 0x0A] ls))"

definition createSignature ::
  "platform \<Rightarrow> string option \<Rightarrow> string \<Rightarrow> sign_options \<Rightarrow> sign_error + signed" where
  "createSignature pf privateKey kid opts =
     (let method = (case opt_method opts of None \<Rightarrow> ''POST'' | Some m \<Rightarrow> m);
          hs = create_headers pf opts;
          headersToSign = create_headersToSign hs
      in case create_signingString pf method (opt_url opts) hs headersToSign of
           Inl e \<Rightarrow> Inl e
         | Inr signingString \<Rightarrow>
             (case crypto_sign pf ''sha256'' signingString privateKey RSA_PKCS1_PSS_PADDING of
                Inl m \<Rightarrow> Inl (SignError m)
              | Inr sg \<Rightarrow>
                  let sh = signatureHeader kid ''rsa-sha256'' (join '' '' headersToSign)
                             (base64_encode pf sg)
                  in Inr \<lparr>sig_header = sh,
                          sig_headers =
                            obj_set (obj_set (obj_set hs ''signature'' sh)
                                       ''content-type'' ''application/activity+json'')
                              ''accept'' ''application/activity+json'',
                          sig_signingString = signingString\<rparr>))"

text \<open>The request a recipient sees when the signer's headers arrive as they are: the
  method of the options, the path of the URL (Express keeps the query string out of
  \<^verbatim>\<open>req.path\<close>) and the headers returned by \<^verbatim>\<open>createSignature\<close>, names lower-cased.\<close>

definition request_of :: "platform \<Rightarrow> sign_options \<Rightarrow> signed \<Rightarrow> request" where
  "request_of pf opts s =
     \<lparr>req_method = (case opt_method opts of None \<Rightarrow> ''POST'' | Some m \<Rightarrow> m),
      req_path = (case URL_parse pf (opt_url opts) of None \<Rightarrow> [] | Some (pathname, search) \<Rightarrow> pathname),
      req_headers = map (\<lambda>(k, v). (toLowerCase k, v)) (sig_headers s)\<rparr>"

section \<open>\<^verbatim>\<open>deliverToInbox\<close>\<close>

text \<open>What one HTTP request comes to, redirects followed: a response, or no response
  at all (connection refused, time-out, too many redirects).\<close>

record response =
  status :: nat
  statusText :: string
  data :: json

datatype http_outcome = Responded response | NetworkError string

text \<open>Decimal digits of a number, for the message of a rejected status.\<close>

fun show_nat :: "nat \<Rightarrow> string" where
  "show_nat n =
     (if n < 10 then [''0123456789'' ! n]
      else show_nat (n div 10) @ [''0123456789'' ! (n mod 10)])"

declare show_nat.simps [simp del]

text \<open>\<^verbatim>\<open>axios.post\<close> resolves with the response when \<^verbatim>\<open>validateStatus\<close> accepts
  its status, and rejects otherwise; the error it rejects with carries a message and,
  when there was one, the response.\<close>

record axios_error =
  err_message :: string
  err_response :: "response option"

definition axios_settle :: "(nat \<Rightarrow> bool) \<Rightarrow> http_outcome \<Rightarrow> axios_error + response" where
  "axios_settle validateStatus outcome =
     (case outcome of
        NetworkError m \<Rightarrow> Inl \<lparr>err_message = m, err_response = None\<rparr>
      | Responded r \<Rightarrow>
          if validateStatus (status r) then Inr r
          else Inl \<lparr>err_message = ''Request failed with status code '' @ show_nat (status r),
                    err_response = Some r\<rparr>)"

text \<open>The \<^verbatim>\<open>validateStatus\<close> option of \<^verbatim>\<open>deliverToInbox\<close> (line 89), and the
  default of axios, which \<^verbatim>\<open>sendActivity\<close> leaves in place.\<close>

definition deliver_validateStatus :: "nat \<Rightarrow> bool" where
  "deliver_validateStatus st = (200 \<le> st \<and> st < 300 \<or> st = 401)"

definition default_validateStatus :: "nat \<Rightarrow> bool" where
  "default_validateStatus st = (200 \<le> st \<and> st < 300)"

fun sign_error_message :: "sign_error \<Rightarrow> string" where
  "sign_error_message InvalidURL = ''Invalid URL''"
| "sign_error_message (SignError m) = m"

text \<open>The object \<^verbatim>\<open>deliverToInbox\<close> returns.  Properties that the source leaves
  out or sets to \<^verbatim>\<open>undefined\<close> are \<open>None\<close>.\<close>

record delivery_result =
  success :: bool
  error :: "string option"
  res_status :: "nat option"
  res_statusText :: "string option"
  res_data :: "json option"

text \<open>The network is a parameter: \<open>net k inbox body headers\<close> is the outcome of the
  request sent after \<open>k\<close> earlier ones.  The function returns its result together with
  the number of requests it sent.\<close>

type_synonym network = "nat \<Rightarrow> string \<Rightarrow> json \<Rightarrow> js_object \<Rightarrow> http_outcome"

definition deliver_headers :: "platform \<Rightarrow> (string \<rightharpoonup> string) \<Rightarrow> js_object" where
  "deliver_headers pf env =
     [(''Content-Type'', ''application/activity+json''),
      (''Accept'', ''application/activity+json, application/ld+json''),
      (''Date'', Date_toUTCString pf),
      (''User-Agent'',
         template (env ''SERVER_NAME'') @ '' ('' @ template (env ''SERVER_DOMAIN'') @ '')'')]"

text \<open>The part of \<^verbatim>\<open>deliverToInbox\<close> before the request: the headers to send, or the
  error thrown by \<^verbatim>\<open>createSignature\<close>.  \<^verbatim>\<open>createSignature\<close> writes the date and the
  digest into the object it is given, and \<^verbatim>\<open>Object.assign\<close> then copies the headers
  it returns.\<close>

definition deliver_prepare ::
  "platform \<Rightarrow> (string \<rightharpoonup> string) \<Rightarrow> json \<Rightarrow> string \<Rightarrow>
   string option \<Rightarrow> string option \<Rightarrow> sign_error + js_object" where
  "deliver_prepare pf env activity inbox kid privateKey =
     (let opts = \<lparr>opt_method = Some ''POST'', opt_url = Some inbox,
                   opt_headers = Some (deliver_headers pf env), opt_body = Some activity\<rparr>
      in if truthy kid \<and> truthy privateKey
         then (case createSignature pf privateKey (template kid) opts of
                 Inl e \<Rightarrow> Inl e
               | Inr s \<Rightarrow> Inr (obj_assign (create_headers pf opts) (sig_headers s)))
         else Inr (deliver_headers pf env))"

definition deliverToInbox ::
  "platform \<Rightarrow> (string \<rightharpoonup> string) \<Rightarrow> network \<Rightarrow> json \<Rightarrow> string \<Rightarrow>
   string option \<Rightarrow> string option \<Rightarrow> delivery_result \<times> nat" where
  "deliverToInbox pf env net activity inbox kid privateKey =
     (case deliver_prepare pf env activity inbox kid privateKey of
        Inl e \<Rightarrow>
          (\<lparr>success = False, error = Some (sign_error_message e), res_status = None,
            res_statusText = None, res_data = None\<rparr>, 0)
      | Inr hs \<Rightarrow>
          (case axios_settle deliver_validateStatus (net 0 inbox activity hs) of
             Inr r \<Rightarrow>
               (\<lparr>success = True, error = None, res_status = Some (status r),
                 res_statusText = Some (statusText r), res_data = Some (data r)\<rparr>, 1)
           | Inl e \<Rightarrow>
               (\<lparr>success = False, error = Some (err_message e),
                 res_status = map_option status (err_response e),
                 res_statusText = map_option statusText (err_response e),
                 res_data = map_option data (err_response e)\<rparr>, 1)))"

section \<open>The inbox: stores\<close>

text \<open>Reading a property: of \<^verbatim>\<open>undefined\<close> or \<^verbatim>\<open>null\<close> it throws a TypeError
  (\<open>None\<close>); of an object it gives the value or \<^verbatim>\<open>undefined\<close>; the other values have
  none of the properties the handlers read.  An object lists each key once.\<close>

fun get_prop :: "json \<Rightarrow> string \<Rightarrow> json option" where
  "get_prop JUndefined k = None"
| "get_prop JNull k = None"
| "get_prop (JObj kvs) k = Some (case map_of kvs k of None \<Rightarrow> JUndefined | Some v \<Rightarrow> v)"
| "get_prop v k = Some JUndefined"

text \<open>A read that cannot throw, because an earlier read of the same value went through.\<close>

definition field :: "json \<Rightarrow> string \<Rightarrow> json" where
  "field v k = (case get_prop v k of None \<Rightarrow> JUndefined | Some x \<Rightarrow> x)"

text \<open>\<^verbatim>\<open>a || b\<close>.\<close>

definition json_or :: "json \<Rightarrow> json \<Rightarrow> json" where
  "json_or a b = (if json_truthy a then a else b)"

text \<open>
  Modelled from the spec: the Prisma schema is not under src/.  A FollowRelationship
  has the follower's and the followed actor's URI and a status, with at most one
  relationship per (follower, following) pair; Follow creation and Post creation are
  both keyed by a unique identifier, and for a Post that is its id (the routes of
  posts.js look a post up with \<^verbatim>\<open>findUnique\<close> on \<^verbatim>\<open>id\<close>).  So the two key columns of a
  follow row and the id of a post are strings here, the pair of a follow row and the
  id of a post are unique, and the other columns hold what the handlers pass.  What
  else the schema demands is a parameter of the model: \<open>follow_valid\<close> and
  \<open>post_valid\<close> say whether the database takes a row at all (column types, required
  columns, foreign keys).
\<close>

record follow_row =
  followerId :: string
  followingId :: string
  follow_status :: string
  follow_actor :: string
  follow_object :: string

record post_row =
  post_id :: string
  post_content :: json
  post_userId :: string
  post_uri :: string
  post_url :: json
  isPublic :: bool
  contentWarning :: json
  inReplyTo :: json
  sensitive :: json

record schema =
  follow_valid :: "follow_row \<Rightarrow> bool"
  post_valid :: "post_row \<Rightarrow> bool"

record db =
  follows :: "follow_row list"
  posts :: "post_row list"

datatype inbox_error = TypeError | ReferenceError | PrismaError | DeliveryError

text \<open>\<^verbatim>\<open>prisma.follow.create\<close> and \<^verbatim>\<open>prisma.post.create\<close>: the row is added, or the
  call throws (the row is not valid, or it breaks the unique constraint) and the table
  stays as it was.\<close>

definition same_pair :: "string \<Rightarrow> string \<Rightarrow> follow_row \<Rightarrow> bool" where
  "same_pair a b r = (followerId r = a \<and> followingId r = b)"

definition follow_create :: "schema \<Rightarrow> db \<Rightarrow> follow_row \<Rightarrow> inbox_error + db" where
  "follow_create sch st row =
     (if \<not> follow_valid sch row then Inl PrismaError
      else if list_ex (same_pair (followerId row) (followingId row)) (follows st)
      then Inl PrismaError
      else Inr (st\<lparr>follows := follows st @ [row]\<rparr>))"

definition post_create :: "schema \<Rightarrow> db \<Rightarrow> post_row \<Rightarrow> inbox_error + db" where
  "post_create sch st row =
     (if \<not> post_valid sch row then Inl PrismaError
      else if list_ex (\<lambda>r. post_id r = post_id row) (posts st)
      then Inl PrismaError
      else Inr (st\<lparr>posts := posts st @ [row]\<rparr>))"

text \<open>A condition of a \<^verbatim>\<open>where\<close> on a string column: Prisma ignores a condition whose
  value is \<^verbatim>\<open>undefined\<close>, compares with a string, and rejects any other value.\<close>

datatype condition = Unconstrained | Equals string | Rejected

fun condition_of :: "json \<Rightarrow> condition" where
  "condition_of JUndefined = Unconstrained"
| "condition_of (JStr s) = Equals s"
| "condition_of v = Rejected"

fun holds :: "condition \<Rightarrow> string \<Rightarrow> bool" where
  "holds Unconstrained s = True"
| "holds (Equals t) s = (s = t)"
| "holds Rejected s = False"

definition selected :: "condition \<Rightarrow> condition \<Rightarrow> follow_row \<Rightarrow> bool" where
  "selected ca cb r = (holds ca (followerId r) \<and> holds cb (followingId r))"

text \<open>\<^verbatim>\<open>prisma.follow.deleteMany({where: {followerId, followingId}})\<close>.\<close>

definition follow_deleteMany :: "db \<Rightarrow> json \<Rightarrow> json \<Rightarrow> inbox_error + db" where
  "follow_deleteMany st a b =
     (if condition_of a = Rejected \<or> condition_of b = Rejected then Inl PrismaError
      else Inr (st\<lparr>follows :=
                  filter (\<lambda>r. \<not> selected (condition_of a) (condition_of b) r) (follows st)\<rparr>))"

text \<open>\<^verbatim>\<open>prisma.follow.updateMany({where: {followerId, followingId}, data: {status}})\<close>.\<close>

definition follow_updateMany :: "db \<Rightarrow> json \<Rightarrow> json \<Rightarrow> string \<Rightarrow> inbox_error + db" where
  "follow_updateMany st a b new_status =
     (if condition_of a = Rejected \<or> condition_of b = Rejected then Inl PrismaError
      else Inr (st\<lparr>follows :=
                  map (\<lambda>r. if selected (condition_of a) (condition_of b) r
                           then r\<lparr>follow_status := new_status\<rparr> else r) (follows st)\<rparr>))"

section \<open>The inbox: handlers\<close>

text \<open>A handler returns the database it leaves and, when it threw, the error.  The one
  request a handler may send is answered by \<open>net\<close>.\<close>

type_synonym send = "string \<Rightarrow> json \<Rightarrow> js_object \<Rightarrow> http_outcome"

definition sendActivity ::
  "platform \<Rightarrow> (string \<rightharpoonup> string) \<Rightarrow> send \<Rightarrow> json \<Rightarrow> string \<Rightarrow> inbox_error option" where
  "sendActivity pf env net activity to =
     (let inbox = (if endsWith to ''/inbox'' then to else to @ ''/inbox'') in
      case createSignature pf (env ''SERVER_PRIVATE_KEY'')
             (template (env ''SERVER_DOMAIN'') @ ''/actor'')
             \<lparr>opt_method = None, opt_url = Some inbox, opt_headers = None,
              opt_body = Some activity\<rparr> of
        Inl e \<Rightarrow> Some DeliveryError
      | Inr s \<Rightarrow>
          (case axios_settle default_validateStatus (net inbox activity (sig_headers s)) of
             Inl e \<Rightarrow> Some DeliveryError
           | Inr r \<Rightarrow> None))"

text \<open>The \<^verbatim>\<open>data\<close> of \<^verbatim>\<open>prisma.follow.create\<close>.  Destructuring the activity throws a
  TypeError when there is none; Prisma takes only a string for a string column.\<close>

fun as_string :: "json \<Rightarrow> string option" where
  "as_string (JStr s) = Some s"
| "as_string v = None"

definition follow_data :: "platform \<Rightarrow> json \<Rightarrow> inbox_error + follow_row" where
  "follow_data pf activity =
     (case (get_prop activity ''actor'', get_prop activity ''object'') of
        (Some actor, Some obj) \<Rightarrow>
          (case (as_string actor, as_string obj) of
             (Some a, Some ob) \<Rightarrow>
               Inr \<lparr>followerId = a, followingId = ob, follow_status = ''PENDING'',
                    follow_actor = JSON_stringify pf actor,
                    follow_object = JSON_stringify pf obj\<rparr>
           | _ \<Rightarrow> Inl PrismaError)
      | _ \<Rightarrow> Inl TypeError)"

text \<open>The second half of \<^verbatim>\<open>handleFollow\<close>: the Accept is built and sent to the
  follower.  The global \<^verbatim>\<open>crypto\<close> is not imported by the module.\<close>

definition auto_accept ::
  "platform \<Rightarrow> (string \<rightharpoonup> string) \<Rightarrow> send \<Rightarrow> json \<Rightarrow> follow_row \<Rightarrow> inbox_error option" where
  "auto_accept pf env net activity row =
     (case randomUUID pf of
        None \<Rightarrow> Some ReferenceError
      | Some uuid \<Rightarrow>
          sendActivity pf env net
            (JObj [(''@context'', JStr ''https://www.w3.org/ns/activitystreams''),
                   (''id'', JStr (template (env ''SERVER_DOMAIN'') @ ''/activities/'' @ uuid)),
                   (''type'', JStr ''Accept''),
                   (''actor'', JStr (followingId row)),
                   (''object'', activity)])
            (followerId row))"

definition handleFollow ::
  "platform \<Rightarrow> schema \<Rightarrow> (string \<rightharpoonup> string) \<Rightarrow> send \<Rightarrow> db \<Rightarrow> json \<Rightarrow> inbox_error option \<times> db" where
  "handleFollow pf sch env net st activity =
     (case follow_data pf activity of
        Inl e \<Rightarrow> (Some e, st)
      | Inr row \<Rightarrow>
          (case follow_create sch st row of
             Inl e \<Rightarrow> (Some e, st)
           | Inr st' \<Rightarrow> (auto_accept pf env net activity row, st')))"

text \<open>The public collection.\<close>

definition Public :: string where
  "Public = ''https://www.w3.org/ns/activitystreams#Public''"

text \<open>\<^verbatim>\<open>object.to.includes(Public)\<close>: membership for an array, a substring test for a
  string, a TypeError for anything else.\<close>

fun includes_Public :: "json \<Rightarrow> bool option" where
  "includes_Public (JArr xs) = Some (JStr Public \<in> set xs)"
| "includes_Public (JStr s) = Some (str_includes s Public)"
| "includes_Public v = None"

text \<open>\<^verbatim>\<open>activity.actor.split('/').pop()\<close>: the last piece; only a string has
  \<^verbatim>\<open>split\<close>.\<close>

fun userId_of :: "json \<Rightarrow> string option" where
  "userId_of (JStr s) = Some (last (split_on (CHR ''/'') s))"
| "userId_of v = None"

text \<open>The \<^verbatim>\<open>data\<close> of \<^verbatim>\<open>prisma.post.create\<close>: \<open>Inr None\<close> when the object is not a
  Note and nothing is stored, an error when building the object throws or the id is
  not a string.\<close>

definition note_data :: "json \<Rightarrow> inbox_error + post_row option" where
  "note_data activity =
     (case get_prop activity ''object'' of
        None \<Rightarrow> Inl TypeError
      | Some obj \<Rightarrow>
          (case get_prop obj ''type'' of
             None \<Rightarrow> Inl TypeError
           | Some ty \<Rightarrow>
               if ty \<noteq> JStr ''Note'' then Inr None
               else
                 (case (userId_of (field activity ''actor''), includes_Public (field obj ''to'')) of
                    (Some uid, Some pub) \<Rightarrow>
                      (case as_string (field obj ''id'') of
                         None \<Rightarrow> Inl PrismaError
                       | Some i \<Rightarrow>
                           Inr (Some
                             \<lparr>post_id = i,
                              post_content = field obj ''content'',
                              post_userId = uid,
                              post_uri = i,
                              post_url = json_or (field obj ''url'') (JStr i),
                              isPublic = pub,
                              contentWarning = json_or (field obj ''summary'') JNull,
                              inReplyTo = json_or (field obj ''inReplyTo'') JNull,
                              sensitive = json_or (field obj ''sensitive'') (JBool False)\<rparr>))
                  | _ \<Rightarrow> Inl TypeError)))"

definition handleCreate :: "schema \<Rightarrow> db \<Rightarrow> json \<Rightarrow> inbox_error option \<times> db" where
  "handleCreate sch st activity =
     (case note_data activity of
        Inl e \<Rightarrow> (Some e, st)
      | Inr None \<Rightarrow> (None, st)
      | Inr (Some row) \<Rightarrow>
          (case post_create sch st row of
             Inl e \<Rightarrow> (Some e, st)
           | Inr st' \<Rightarrow> (None, st')))"

text \<open>The three handlers that look a relationship up by the embedded Follow.\<close>

definition embedded_Follow :: "json \<Rightarrow> (json \<times> json) option option" where
  "embedded_Follow activity =
     (case get_prop activity ''object'' of
        None \<Rightarrow> None
      | Some obj \<Rightarrow>
          (case get_prop obj ''type'' of
             None \<Rightarrow> None
           | Some ty \<Rightarrow>
               if ty = JStr ''Follow''
               then Some (Some (field obj ''actor'',
                                field obj ''object''))
               else Some None))"

definition settle :: "db \<Rightarrow> inbox_error + db \<Rightarrow> inbox_error option \<times> db" where
  "settle st r = (case r of Inl e \<Rightarrow> (Some e, st) | Inr st' \<Rightarrow> (None, st'))"

definition handleUndo :: "db \<Rightarrow> json \<Rightarrow> inbox_error option \<times> db" where
  "handleUndo st activity =
     (case embedded_Follow activity of
        None \<Rightarrow> (Some TypeError, st)
      | Some None \<Rightarrow> (None, st)
      | Some (Some (a, b)) \<Rightarrow> settle st (follow_deleteMany st a b))"

definition handleAccept :: "db \<Rightarrow> json \<Rightarrow> inbox_error option \<times> db" where
  "handleAccept st activity =
     (case embedded_Follow activity of
        None \<Rightarrow> (Some TypeError, st)
      | Some None \<Rightarrow> (None, st)
      | Some (Some (a, b)) \<Rightarrow> settle st (follow_updateMany st a b ''ACCEPTED''))"

definition handleReject :: "db \<Rightarrow> json \<Rightarrow> inbox_error option \<times> db" where
  "handleReject st activity =
     (case embedded_Follow activity of
        None \<Rightarrow> (Some TypeError, st)
      | Some None \<Rightarrow> (None, st)
      | Some (Some (a, b)) \<Rightarrow> settle st (follow_deleteMany st a b))"

text \<open>The handler of \<^verbatim>\<open>POST /inbox\<close>, behind the middleware: the \<^verbatim>\<open>switch\<close> on the
  type, then 202, or 500 when something threw.\<close>

definition post_inbox :: "platform \<Rightarrow> schema \<Rightarrow> (string \<rightharpoonup> string) \<Rightarrow> send \<Rightarrow> db \<Rightarrow> json \<Rightarrow> nat \<times> db" where
  "post_inbox pf sch env net st activity =
     (case get_prop activity ''type'' of
        None \<Rightarrow> (500, st)
      | Some ty \<Rightarrow>
          (let (e, st') =
                 (if ty = JStr ''Follow'' then handleFollow pf sch env net st activity
                  else if ty = JStr ''Create'' then handleCreate sch st activity
                  else if ty = JStr ''Undo'' then handleUndo st activity
                  else if ty = JStr ''Accept'' then handleAccept st activity
                  else if ty = JStr ''Reject'' then handleReject st activity
                  else (None, st))
           in (if e = None then 202 else 500, st')))"

section \<open>The invariant of the follow table\<close>

definition pairs :: "follow_row list \<Rightarrow> (string \<times> string) list" where
  "pairs rows = map (\<lambda>r. (followerId r, followingId r)) rows"

text \<open>At most one relationship per (follower, following) pair.\<close>

definition one_per_pair :: "db \<Rightarrow> bool" where
  "one_per_pair st = distinct (pairs (follows st))"

section \<open>Fixtures of the worked examples\<close>

text \<open>A platform whose cryptography signs everything and accepts every signature, so
  that no failure in an example comes from it.\<close>

definition example_platform :: platform where
  "example_platform =
     \<lparr>crypto_sign = (\<lambda>alg d k p. Inr []),
      crypto_verify = (\<lambda>alg d k p sg. Inr True),
      base64_encode = (\<lambda>b. ''c2lnbmF0dXJl''),
      base64_decode = (\<lambda>s. []),
      sha256_base64 = (\<lambda>s. ''aGFzaA==''),
      JSON_stringify = (\<lambda>j. ''{}''),
      URL_parse = (\<lambda>u. if u = Some ''https://example.com/inbox'' then Some (''/inbox'', []) else None),
      Date_toUTCString = ''Wed, 21 Oct 2020 07:28:00 GMT'',
      randomUUID = Some ''0''\<rparr>"

text \<open>The request of the specification's example: \<^verbatim>\<open>POST /inbox\<close> with a host and a
  date.\<close>

definition example_request :: request where
  "example_request =
     \<lparr>req_method = ''POST'', req_path = ''/inbox'',
      req_headers = [(''host'', ''example.com''), (''date'', ''Wed, 21 Oct 2020 07:28:00 GMT'')]\<rparr>"

text \<open>The call \<^verbatim>\<open>sendActivity\<close> makes: \<^verbatim>\<open>createSignature(key, keyId, {url, body})\<close>.\<close>

definition sendActivity_options :: sign_options where
  "sendActivity_options =
     \<lparr>opt_method = None, opt_url = Some ''https://example.com/inbox'',
      opt_headers = None, opt_body = Some (JObj [(''type'', JStr ''Accept'')])\<rparr>"

text \<open>Networks: one that answers every request with the same status, and one whose
  first answer is 503 and whose later answers are 202.\<close>

definition example_network :: "nat \<Rightarrow> network" where
  "example_network st =
     (\<lambda>k inbox body hs. Responded \<lparr>status = st, statusText = [], data = JNull\<rparr>)"

definition flaky_network :: network where
  "flaky_network =
     (\<lambda>k inbox body hs.
        if k = 0
        then Responded \<lparr>status = 503, statusText = ''Service Unavailable'', data = JNull\<rparr>
        else Responded \<lparr>status = 202, statusText = ''Accepted'', data = JNull\<rparr>)"

definition accepting :: send where
  "accepting =
     (\<lambda>inbox body hs. Responded \<lparr>status = 202, statusText = ''Accepted'', data = JNull\<rparr>)"

text \<open>A schema that demands nothing more of a row.\<close>

definition example_schema :: schema where
  "example_schema = \<lparr>follow_valid = (\<lambda>r. True), post_valid = (\<lambda>r. True)\<rparr>"

definition empty_db :: db where
  "empty_db = \<lparr>follows = [], posts = []\<rparr>"

text \<open>Bob, on a remote server, follows Alice; the Accept and the Undo embed the
  Follow.\<close>

definition example_Follow :: json where
  "example_Follow =
     JObj [(''id'', JStr ''https://remote.example/activities/1''),
           (''type'', JStr ''Follow''),
           (''actor'', JStr ''https://remote.example/users/bob''),
           (''object'', JStr ''https://example.com/users/alice'')]"

definition example_Accept :: json where
  "example_Accept =
     JObj [(''id'', JStr ''https://example.com/activities/2''),
           (''type'', JStr ''Accept''),
           (''actor'', JStr ''https://example.com/users/alice''),
           (''object'', example_Follow)]"

definition example_Undo :: json where
  "example_Undo =
     JObj [(''id'', JStr ''https://remote.example/activities/3''),
           (''type'', JStr ''Undo''),
           (''actor'', JStr ''https://remote.example/users/bob''),
           (''object'', example_Follow)]"

text \<open>An Accept and an Undo that name the Follow by its URI, as the Activity of the
  specification allows (object: URI or embedded object).\<close>

definition example_Accept_by_URI :: json where
  "example_Accept_by_URI =
     JObj [(''id'', JStr ''https://example.com/activities/2''),
           (''type'', JStr ''Accept''),
           (''actor'', JStr ''https://example.com/users/alice''),
           (''object'', JStr ''https://remote.example/activities/1'')]"

definition example_Undo_by_URI :: json where
  "example_Undo_by_URI =
     JObj [(''id'', JStr ''https://remote.example/activities/3''),
           (''type'', JStr ''Undo''),
           (''actor'', JStr ''https://remote.example/users/bob''),
           (''object'', JStr ''https://remote.example/activities/1'')]"

text \<open>A Create whose Note is addressed to the author's followers, with the public
  collection in \<^verbatim>\<open>cc\<close> (an unlisted post), on the activity and on the Note alike.\<close>

definition example_Note :: json where
  "example_Note =
     JObj [(''id'', JStr ''https://remote.example/notes/1''),
           (''type'', JStr ''Note''),
           (''content'', JStr ''hello''),
           (''to'', JArr [JStr ''https://remote.example/users/bob/followers'']),
           (''cc'', JArr [JStr Public])]"

definition example_Create :: json where
  "example_Create =
     JObj [(''id'', JStr ''https://remote.example/activities/4''),
           (''type'', JStr ''Create''),
           (''actor'', JStr ''https://remote.example/users/bob''),
           (''to'', JArr [JStr ''https://remote.example/users/bob/followers'']),
           (''cc'', JArr [JStr Public]),
           (''object'', example_Note)]"

text \<open>A key store with one user, and a signed \<^verbatim>\<open>POST /inbox\<close> whose Signature header is
  written by the signer's template with a given key id and algorithm.\<close>

definition example_users :: "user list" where
  "example_users =
     [\<lparr>actorUrl = ''https://example.com/users/alice'', publicKey = Some ''PUBLIC KEY''\<rparr>]"

text \<open>The environment of the development bypass.\<close>

definition bypass_env :: "string \<rightharpoonup> string" where
  "bypass_env = [''NODE_ENV'' \<mapsto> ''development'', ''SKIP_SIGNATURE_VERIFICATION'' \<mapsto> ''true'']"

definition signed_request :: "string \<Rightarrow> string \<Rightarrow> request" where
  "signed_request kid alg =
     \<lparr>req_method = ''POST'', req_path = ''/inbox'',
      req_headers =
        [(''host'', ''example.com''), (''date'', ''Wed, 21 Oct 2020 07:28:00 GMT''),
         (''signature'',
            signatureHeader kid alg ''(request-target) host date'' ''c2lnbmF0dXJl'')]\<rparr>"

section \<open>The signing string\<close>

lemma verify_lines_present:
  "\<forall>h \<in> set names. h \<noteq> ''(request-target)'' \<longrightarrow>
             h \<noteq> [] \<and> truthy (req_get req (toLowerCase h)) \<Longrightarrow>
   verify_lines req names =
     Inr (map (\<lambda>h. if h = ''(request-target)''
                     then ''(request-target): '' @ toLowerCase (req_method req) @ '' '' @ req_path req
                     else toLowerCase h @ '': '' @ template (req_get req (toLowerCase h))) names)"
  by (induction names) (auto simp: verify_line_def Let_def)

lemma create_lines_parsed:
  "URL_parse pf url = Some (pathname, search) \<Longrightarrow>
   create_lines pf method url hs names =
     Inr (map (\<lambda>h. if h = ''(request-target)''
                     then ''(request-target): '' @ toLowerCase method @ '' '' @ pathname @ search
                     else h @ '': '' @ template (obj_get hs h)) names)"
  by (induction names) (auto simp: create_line_def)

lemma toLowerCase_headersToSign:
  "h \<in> set (create_headersToSign hs) \<Longrightarrow> toLowerCase h = h"
  by (auto simp: create_headersToSign_def toLowerCase_def lower_char_def is_upper_def split: if_splits)

text \<open>
  C3, as amended.  When every name in the list (other than the pseudo-header
  \<^verbatim>\<open>(request-target)\<close>) is a header present with a non-empty value, the verifier's signing
  string is the lines \<^verbatim>\<open><lower-cased name>: <value>\<close>, in the order of the list, joined
  by a newline, with \<^verbatim>\<open>(request-target)\<close> standing for the lower-cased method and the
  path; the value is written as it came, in its own case.  The signer builds the same
  lines from its own header list, once the URL parses.
\<close>

theorem signing_string_construction:
  assumes "\<forall>h \<in> set names. h \<noteq> ''(request-target)'' \<longrightarrow>
             h \<noteq> [] \<and> truthy (req_get req (toLowerCase h))"
  shows "verify_signingString req names =
           Inr (join [CHR 0x0A]
                  (map (\<lambda>h. if h = ''(request-target)''
                             then ''(request-target): '' @ toLowerCase (req_method req) @ '' '' @ req_path req
                             else toLowerCase h @ '': '' @ template (req_get req (toLowerCase h))) names))
         \<and> (URL_parse pf url = Some (pathname, search) \<longrightarrow>
            create_signingString pf method url hs (create_headersToSign hs) =
              Inr (join [CHR 0x0A]
                     (map (\<lambda>h. if h = ''(request-target)''
                                then ''(request-target): '' @ toLowerCase method @ '' '' @ pathname @ search
                                else toLowerCase h @ '': '' @ template (obj_get hs h))
                        (create_headersToSign hs))))"
proof -
  have eq: "map (\<lambda>h. if h = ''(request-target)''
                      then ''(request-target): '' @ toLowerCase method @ '' '' @ pathname @ search
                      else toLowerCase h @ '': '' @ template (obj_get hs h))
              (create_headersToSign hs) =
            map (\<lambda>h. if h = ''(request-target)''
                      then ''(request-target): '' @ toLowerCase method @ '' '' @ pathname @ search
                      else h @ '': '' @ template (obj_get hs h))
              (create_headersToSign hs)"
    by (rule map_cong) (simp_all add: toLowerCase_headersToSign)
  have v: "verify_signingString req names =
           Inr (join [CHR 0x0A]
                  (map (\<lambda>h. if h = ''(request-target)''
                             then ''(request-target): '' @ toLowerCase (req_method req) @ '' '' @ req_path req
                             else toLowerCase h @ '': '' @ template (req_get req (toLowerCase h))) names))"
    using assms by (simp add: verify_signingString_def verify_lines_present)
  have c: "create_signingString pf method url hs (create_headersToSign hs) =
              Inr (join [CHR 0x0A]
                     (map (\<lambda>h. if h = ''(request-target)''
                                then ''(request-target): '' @ toLowerCase method @ '' '' @ pathname @ search
                                else toLowerCase h @ '': '' @ template (obj_get hs h))
                        (create_headersToSign hs)))"
    if "URL_parse pf url = Some (pathname, search)"
    using that by (simp add: create_signingString_def create_lines_parsed eq)
  from v c show ?thesis by blast
qed

text \<open>The theorem at the request of the specification's example, for the verifier and
  for the signer: the date keeps its capitals.\<close>

theorem signing_string_example:
  "verify_signingString example_request [''(request-target)'', ''host'', ''date''] =
     Inr (''(request-target): post /inbox'' @ [CHR 0x0A] @ ''host: example.com'' @ [CHR 0x0A] @
          ''date: Wed, 21 Oct 2020 07:28:00 GMT'')
   \<and> create_signingString example_platform ''POST'' (Some ''https://example.com/inbox'')
       (req_headers example_request) (create_headersToSign (req_headers example_request)) =
     Inr (''(request-target): post /inbox'' @ [CHR 0x0A] @ ''host: example.com'' @ [CHR 0x0A] @
          ''date: Wed, 21 Oct 2020 07:28:00 GMT'')"
  using signing_string_construction
    [of "[''(request-target)'', ''host'', ''date'']" example_request example_platform
        "Some ''https://example.com/inbox''" "''/inbox''" "[]" "''POST''"
        "req_headers example_request"]
  by (simp add: example_request_def example_platform_def req_get_def headers_get_def inherited_def obj_get_def
      create_headersToSign_def toLowerCase_def lower_char_def is_upper_def)

text \<open>C3 as stated fails: the string the code builds for the example is not the
  example string of the specification, whose date is in lower case.\<close>

theorem signing_string_not_spec_example:
  "verify_signingString example_request [''(request-target)'', ''host'', ''date''] \<noteq>
     Inr (''(request-target): post /inbox'' @ [CHR 0x0A] @ ''host: example.com'' @ [CHR 0x0A] @
          ''date: wed, 21 oct 2020 07:28:00 gmt'')"
  by (simp add: verify_signingString_def verify_line_def example_request_def req_get_def headers_get_def inherited_def
      obj_get_def toLowerCase_def lower_char_def is_upper_def)

section \<open>The codec of the Signature header\<close>

lemmas parse_defs = parseSignatureHeader_def parse_pair_def startsWith_def trim_def
  js_is_ws_def strip_leading_quote_def strip_trailing_quote_def signatureHeader_def

text \<open>
  C2 at a header written by the signer's own template, with a base64 signature that
  ends in padding: decoding keeps only the text before the first \<^verbatim>\<open>=\<close> of the value, so
  writing the parameters back gives a header without the padding, not the one that was
  read.
\<close>

theorem reencode_drops_padding:
  "reencode (signatureHeader ''https://example.com/users/alice'' ''rsa-sha256''
               ''(request-target) host date'' ''QUJDRA=='')
     = Some (signatureHeader ''https://example.com/users/alice'' ''rsa-sha256''
               ''(request-target) host date'' ''QUJDRA'')
   \<and> reencode (signatureHeader ''https://example.com/users/alice'' ''rsa-sha256''
               ''(request-target) host date'' ''QUJDRA=='')
     \<noteq> Some (signatureHeader ''https://example.com/users/alice'' ''rsa-sha256''
               ''(request-target) host date'' ''QUJDRA=='')"
  by (simp add: reencode_def parse_defs)

section \<open>Signing, then verifying\<close>

lemma create_headers_sendActivity:
  "create_headers pf sendActivity_options =
     [(''date'', Date_toUTCString pf),
      (''digest'', ''SHA-256='' @ sha256_base64 pf (JSON_stringify pf (JObj [(''type'', JStr ''Accept'')])))]"
  by (simp add: create_headers_def sendActivity_options_def obj_get_def toUpperCase_def
      upper_char_def is_lower_def)

text \<open>
  C1 at the call \<^verbatim>\<open>sendActivity\<close> makes, on any platform whose URL parser finds the
  path \<^verbatim>\<open>/inbox\<close> and whose signing succeeds: no host is among the headers, so the
  signer signs the line \<^verbatim>\<open>host: undefined\<close>, and the verifier, given the signer's headers
  as they are and the signer's public key under the key id, does not return a verified
  result: it stops at the missing host header.
\<close>

theorem sign_then_verify_fails:
  "(let pf' = pf\<lparr>URL_parse := (\<lambda>u. Some (''/inbox'', [])),
                  crypto_sign := (\<lambda>alg d k p. Inr sg),
                  base64_encode := (\<lambda>b. ''c2lnbmF0dXJl'')\<rparr>
    in case createSignature pf' key ''https://example.com/actor'' sendActivity_options of
         Inl e \<Rightarrow> False
       | Inr s \<Rightarrow>
           sig_signingString s =
             ''(request-target): post /inbox'' @ [CHR 0x0A] @
             ''host: undefined'' @ [CHR 0x0A] @
             ''date: '' @ Date_toUTCString pf @ [CHR 0x0A] @
             ''digest: SHA-256='' @
               sha256_base64 pf (JSON_stringify pf (JObj [(''type'', JStr ''Accept'')]))
           \<and> verifySignature pf'
               [\<lparr>actorUrl = ''https://example.com/actor'', publicKey = Some ''PUBLIC KEY''\<rparr>]
               (request_of pf' sendActivity_options s) = Inl (MissingSignedHeader ''host''))"
  apply (simp add: Let_def createSignature_def create_headers_sendActivity
      create_headersToSign_def obj_get_def create_signingString_def create_line_def
      toLowerCase_def lower_char_def is_upper_def)
  apply (simp add: sendActivity_options_def verifySignature_def request_of_def req_get_def headers_get_def inherited_def
      obj_get_def toLowerCase_def lower_char_def is_upper_def parse_defs)
  apply (simp add: verifyParsed_def requiredParams_def findPublicKey_def Let_def
      verify_signingString_def verify_line_def req_get_def headers_get_def inherited_def obj_get_def toLowerCase_def
      lower_char_def is_upper_def)
  done

section \<open>Delivery\<close>

lemma deliver_unsigned:
  "deliver_prepare pf env activity inbox None None = Inr (deliver_headers pf env)"
  by (simp add: deliver_prepare_def)

text \<open>
  C4, as amended.  \<^verbatim>\<open>deliverToInbox\<close> reports success exactly when the request was sent
  and the response status is 2xx or 401; every other outcome, a 403 among them, is
  reported as a failure.  It sends at most one request: nothing is retried.
\<close>

theorem deliver_success_iff:
  "success (fst (deliverToInbox pf env net activity inbox kid privateKey)) =
     (case deliver_prepare pf env activity inbox kid privateKey of
        Inl e \<Rightarrow> False
      | Inr hs \<Rightarrow>
          (case net 0 inbox activity hs of
             NetworkError m \<Rightarrow> False
           | Responded r \<Rightarrow> 200 \<le> status r \<and> status r < 300 \<or> status r = 401))
   \<and> snd (deliverToInbox pf env net activity inbox kid privateKey) \<le> 1"
  by (simp add: deliverToInbox_def axios_settle_def deliver_validateStatus_def
      split: sum.splits http_outcome.splits)

text \<open>C4 as stated fails: a response with status 401 is reported as a success.\<close>

theorem deliver_401_is_success:
  "success (fst (deliverToInbox example_platform Map.empty (example_network 401) JNull
      ''https://example.com/inbox'' None None))"
  by (simp add: deliverToInbox_def deliver_unsigned axios_settle_def
      deliver_validateStatus_def example_network_def)

text \<open>
  C5, as amended.  When the request fails with a network error or a status of 500 or
  more, \<^verbatim>\<open>deliverToInbox\<close> has sent exactly one request, retries nothing, and returns
  a result with \<^verbatim>\<open>success: false\<close>, an error message and the status of the response
  if there was one.
\<close>

theorem deliver_transient_failure:
  assumes "deliver_prepare pf env activity inbox kid privateKey = Inr hs"
      and "net 0 inbox activity hs = NetworkError m \<or>
           (\<exists>r. net 0 inbox activity hs = Responded r \<and> 500 \<le> status r)"
  shows "\<not> success (fst (deliverToInbox pf env net activity inbox kid privateKey))
         \<and> error (fst (deliverToInbox pf env net activity inbox kid privateKey)) \<noteq> None
         \<and> res_status (fst (deliverToInbox pf env net activity inbox kid privateKey)) =
             (case net 0 inbox activity hs of
                NetworkError m \<Rightarrow> None
              | Responded r \<Rightarrow> Some (status r))
         \<and> snd (deliverToInbox pf env net activity inbox kid privateKey) = 1"
  using assms
  by (auto simp add: deliverToInbox_def axios_settle_def deliver_validateStatus_def)

text \<open>The theorem on the network whose first answer is 503.\<close>

theorem deliver_transient_witness:
  "\<not> success (fst (deliverToInbox example_platform Map.empty flaky_network JNull
        ''https://example.com/inbox'' None None))
   \<and> snd (deliverToInbox example_platform Map.empty flaky_network JNull
        ''https://example.com/inbox'' None None) = 1"
  using deliver_transient_failure
    [of example_platform Map.empty JNull "''https://example.com/inbox''" None None
        "deliver_headers example_platform Map.empty" flaky_network]
  by (simp add: deliver_unsigned flaky_network_def)

text \<open>C5 as stated fails: on a network that answers 503 first and 202 afterwards, the
  delivery is given up after the one request, with no retry.\<close>

theorem deliver_no_retry:
  "deliverToInbox example_platform Map.empty flaky_network JNull
      ''https://example.com/inbox'' None None =
     (\<lparr>success = False, error = Some ''Request failed with status code 503'',
       res_status = Some 503, res_statusText = Some ''Service Unavailable'',
       res_data = Some JNull\<rparr>, 1)"
  by (simp add: deliverToInbox_def deliver_unsigned axios_settle_def
      deliver_validateStatus_def flaky_network_def show_nat.simps)

section \<open>The follow table\<close>

lemma distinct_pairs_filter: "distinct (pairs rows) \<Longrightarrow> distinct (pairs (filter P rows))"
  by (simp add: pairs_def distinct_map_filter)

lemma pairs_update:
  "pairs (map (\<lambda>r. if P r then r\<lparr>follow_status := s\<rparr> else r) rows) = pairs rows"
  by (induction rows) (simp_all add: pairs_def)

lemma list_ex_same_pair: "list_ex (same_pair a b) rows \<longleftrightarrow> (a, b) \<in> set (pairs rows)"
  by (induction rows) (auto simp: pairs_def same_pair_def)

lemma follow_create_invariant:
  "follow_create sch st row = Inr st' \<Longrightarrow> one_per_pair st \<Longrightarrow> one_per_pair st'"
  by (auto simp: follow_create_def one_per_pair_def list_ex_same_pair split: if_splits)
     (simp add: pairs_def)

lemma follow_create_again:
  "follow_create sch st row = Inr st' \<Longrightarrow> follow_create sch st' row = Inl PrismaError"
  by (auto simp: follow_create_def same_pair_def split: if_splits)

lemma post_create_again:
  "post_create sch st row = Inr st' \<Longrightarrow> post_create sch st' row = Inl PrismaError"
  by (auto simp: post_create_def split: if_splits)

lemma post_create_follows: "post_create sch st row = Inr st' \<Longrightarrow> follows st' = follows st"
  by (auto simp: post_create_def split: if_splits)

lemma deleteMany_twice:
  "follow_deleteMany st a b = Inr st' \<Longrightarrow> follow_deleteMany st' a b = Inr st'"
  by (auto simp: follow_deleteMany_def split: if_splits)

lemma selected_update: "selected ca cb (r\<lparr>follow_status := s\<rparr>) = selected ca cb r"
  by (simp add: selected_def)

lemma updateMany_twice:
  "follow_updateMany st a b s = Inr st' \<Longrightarrow> follow_updateMany st' a b s = Inr st'"
  by (auto simp: follow_updateMany_def selected_update split: if_splits)

lemma deleteMany_invariant:
  "follow_deleteMany st a b = Inr st' \<Longrightarrow> one_per_pair st \<Longrightarrow> one_per_pair st'"
  by (auto simp: follow_deleteMany_def one_per_pair_def distinct_pairs_filter split: if_splits)

lemma updateMany_invariant:
  "follow_updateMany st a b s = Inr st' \<Longrightarrow> one_per_pair st \<Longrightarrow> one_per_pair st'"
  by (auto simp: follow_updateMany_def one_per_pair_def pairs_update split: if_splits)

lemma filter_same_pair_none:
  "\<not> list_ex (same_pair a b) rows \<Longrightarrow> filter (same_pair a b) rows = []"
  by (induction rows) auto

lemma accepted_row_of_pair:
  assumes new: "\<not> list_ex (same_pair a b) rows"
  shows "filter (same_pair a b)
           (map (\<lambda>r. if selected (Equals a) (Equals b) r then r\<lparr>follow_status := s\<rparr> else r) (rows @ [row\<lparr>followerId := a, followingId := b\<rparr>]))
         = [row\<lparr>followerId := a, followingId := b, follow_status := s\<rparr>]"
  using new by (induction rows) (auto simp: selected_def same_pair_def)

section \<open>The handlers of the inbox\<close>

lemma settle_twice:
  assumes "\<And>st'. f st = Inr st' \<Longrightarrow> f st' = Inr st'"
  shows "snd (settle (snd (settle st (f st))) (f (snd (settle st (f st)))))
           = snd (settle st (f st))"
proof (cases "f st")
  case (Inl e)
  then show ?thesis by (simp add: settle_def)
next
  case (Inr st')
  with assms [OF Inr] show ?thesis by (simp add: settle_def)
qed

lemma handleUndo_twice: "snd (handleUndo (snd (handleUndo st act)) act) = snd (handleUndo st act)"
proof (cases "embedded_Follow act")
  case None
  then show ?thesis by (simp add: handleUndo_def)
next
  case (Some x)
  note outer = this
  show ?thesis
  proof (cases x)
    case None
    with outer show ?thesis by (simp add: handleUndo_def)
  next
    case (Some ab)
    obtain a b where "ab = (a, b)" by (cases ab)
    with Some outer have "handleUndo s act = settle s (follow_deleteMany s a b)" for s
      by (simp add: handleUndo_def)
    then show ?thesis
      using settle_twice [of "\<lambda>s. follow_deleteMany s a b" st] deleteMany_twice by simp
  qed
qed

lemma handleReject_twice: "snd (handleReject (snd (handleReject st act)) act) = snd (handleReject st act)"
proof (cases "embedded_Follow act")
  case None
  then show ?thesis by (simp add: handleReject_def)
next
  case (Some x)
  note outer = this
  show ?thesis
  proof (cases x)
    case None
    with outer show ?thesis by (simp add: handleReject_def)
  next
    case (Some ab)
    obtain a b where "ab = (a, b)" by (cases ab)
    with Some outer have "handleReject s act = settle s (follow_deleteMany s a b)" for s
      by (simp add: handleReject_def)
    then show ?thesis
      using settle_twice [of "\<lambda>s. follow_deleteMany s a b" st] deleteMany_twice by simp
  qed
qed

lemma handleAccept_twice: "snd (handleAccept (snd (handleAccept st act)) act) = snd (handleAccept st act)"
proof (cases "embedded_Follow act")
  case None
  then show ?thesis by (simp add: handleAccept_def)
next
  case (Some x)
  note outer = this
  show ?thesis
  proof (cases x)
    case None
    with outer show ?thesis by (simp add: handleAccept_def)
  next
    case (Some ab)
    obtain a b where "ab = (a, b)" by (cases ab)
    with Some outer have "handleAccept s act = settle s (follow_updateMany s a b ''ACCEPTED'')" for s
      by (simp add: handleAccept_def)
    then show ?thesis
      using settle_twice [of "\<lambda>s. follow_updateMany s a b ''ACCEPTED''" st] updateMany_twice by simp
  qed
qed

lemma handleFollow_twice:
  "snd (handleFollow pf sch env net' (snd (handleFollow pf sch env net st act)) act)
     = snd (handleFollow pf sch env net st act)"
proof (cases "follow_data pf act")
  case (Inl e)
  then show ?thesis by (simp add: handleFollow_def)
next
  case (Inr row)
  note fd = this
  show ?thesis
  proof (cases "follow_create sch st row")
    case (Inl e)
    with fd show ?thesis by (simp add: handleFollow_def)
  next
    case (Inr st')
    from follow_create_again [OF Inr] Inr fd show ?thesis
      by (simp add: handleFollow_def)
  qed
qed

lemma handleCreate_twice:
  "snd (handleCreate sch (snd (handleCreate sch st act)) act) = snd (handleCreate sch st act)"
proof (cases "note_data act")
  case (Inl e)
  then show ?thesis by (simp add: handleCreate_def)
next
  case (Inr x)
  note nd = this
  show ?thesis
  proof (cases x)
    case None
    with nd show ?thesis by (simp add: handleCreate_def)
  next
    case (Some row)
    note x = this
    show ?thesis
    proof (cases "post_create sch st row")
      case (Inl e)
      with nd x show ?thesis by (simp add: handleCreate_def)
    next
      case (Inr st')
      from post_create_again [OF Inr] Inr nd x show ?thesis
        by (simp add: handleCreate_def)
    qed
  qed
qed

lemma handleCreate_follows: "follows (snd (handleCreate sch st act)) = follows st"
proof (cases "note_data act")
  case (Inl e)
  then show ?thesis by (simp add: handleCreate_def)
next
  case (Inr x)
  note nd = this
  show ?thesis
  proof (cases x)
    case None
    with nd show ?thesis by (simp add: handleCreate_def)
  next
    case (Some row)
    note x = this
    show ?thesis
    proof (cases "post_create sch st row")
      case (Inl e)
      with nd x show ?thesis by (simp add: handleCreate_def)
    next
      case (Inr st')
      from post_create_follows [OF Inr] Inr nd x show ?thesis
        by (simp add: handleCreate_def)
    qed
  qed
qed

lemma handleCreate_invariant:
  "one_per_pair st \<Longrightarrow> one_per_pair (snd (handleCreate sch st act))"
  by (simp add: one_per_pair_def handleCreate_follows)

lemma settle_invariant:
  assumes "\<And>st'. r = Inr st' \<Longrightarrow> P st'" and "P st"
  shows "P (snd (settle st r))"
  using assms by (cases r) (simp_all add: settle_def)

lemma handleUndo_invariant: "one_per_pair st \<Longrightarrow> one_per_pair (snd (handleUndo st act))"
proof (cases "embedded_Follow act")
  case None
  assume "one_per_pair st"
  with None show ?thesis by (simp add: handleUndo_def)
next
  case (Some x)
  note outer = this
  assume inv: "one_per_pair st"
  show ?thesis
  proof (cases x)
    case None
    with outer inv show ?thesis by (simp add: handleUndo_def)
  next
    case (Some ab)
    obtain a b where "ab = (a, b)" by (cases ab)
    with Some outer have "handleUndo st act = settle st (follow_deleteMany st a b)"
      by (simp add: handleUndo_def)
    then show ?thesis
      using settle_invariant [of "follow_deleteMany st a b" one_per_pair st] deleteMany_invariant inv by simp
  qed
qed

lemma handleReject_invariant: "one_per_pair st \<Longrightarrow> one_per_pair (snd (handleReject st act))"
proof (cases "embedded_Follow act")
  case None
  assume "one_per_pair st"
  with None show ?thesis by (simp add: handleReject_def)
next
  case (Some x)
  note outer = this
  assume inv: "one_per_pair st"
  show ?thesis
  proof (cases x)
    case None
    with outer inv show ?thesis by (simp add: handleReject_def)
  next
    case (Some ab)
    obtain a b where "ab = (a, b)" by (cases ab)
    with Some outer have "handleReject st act = settle st (follow_deleteMany st a b)"
      by (simp add: handleReject_def)
    then show ?thesis
      using settle_invariant [of "follow_deleteMany st a b" one_per_pair st] deleteMany_invariant inv by simp
  qed
qed

lemma handleAccept_invariant: "one_per_pair st \<Longrightarrow> one_per_pair (snd (handleAccept st act))"
proof (cases "embedded_Follow act")
  case None
  assume "one_per_pair st"
  with None show ?thesis by (simp add: handleAccept_def)
next
  case (Some x)
  note outer = this
  assume inv: "one_per_pair st"
  show ?thesis
  proof (cases x)
    case None
    with outer inv show ?thesis by (simp add: handleAccept_def)
  next
    case (Some ab)
    obtain a b where "ab = (a, b)" by (cases ab)
    with Some outer have "handleAccept st act = settle st (follow_updateMany st a b ''ACCEPTED'')"
      by (simp add: handleAccept_def)
    then show ?thesis
      using settle_invariant [of "follow_updateMany st a b ''ACCEPTED''" one_per_pair st] updateMany_invariant inv by simp
  qed
qed

lemma handleFollow_invariant:
  assumes "one_per_pair st"
  shows "one_per_pair (snd (handleFollow pf sch env net st act))"
proof (cases "follow_data pf act")
  case (Inl e)
  with assms show ?thesis by (simp add: handleFollow_def)
next
  case (Inr row)
  note fd = this
  show ?thesis
  proof (cases "follow_create sch st row")
    case (Inl e)
    with fd assms show ?thesis by (simp add: handleFollow_def)
  next
    case (Inr st')
    from follow_create_invariant [OF Inr assms] Inr fd show ?thesis
      by (simp add: handleFollow_def)
  qed
qed

lemma snd_post_inbox:
  "snd (post_inbox pf sch env net st act) =
     (case get_prop act ''type'' of
        None \<Rightarrow> st
      | Some ty \<Rightarrow>
          if ty = JStr ''Follow'' then snd (handleFollow pf sch env net st act)
          else if ty = JStr ''Create'' then snd (handleCreate sch st act)
          else if ty = JStr ''Undo'' then snd (handleUndo st act)
          else if ty = JStr ''Accept'' then snd (handleAccept st act)
          else if ty = JStr ''Reject'' then snd (handleReject st act)
          else st)"
  by (simp add: post_inbox_def split: option.splits prod.splits)

lemma embedded_Follow_of:
  "get_prop act ''object'' = Some f \<Longrightarrow> get_prop f ''type'' = Some (JStr ''Follow'') \<Longrightarrow>
   get_prop f ''actor'' = Some (JStr a) \<Longrightarrow> get_prop f ''object'' = Some (JStr b) \<Longrightarrow>
   embedded_Follow act = Some (Some (JStr a, JStr b))"
  by (simp add: embedded_Follow_def field_def)

lemma example_Follow_data:
  "follow_data example_platform example_Follow =
     Inr \<lparr>followerId = ''https://remote.example/users/bob'',
          followingId = ''https://example.com/users/alice'',
          follow_status = ''PENDING'', follow_actor = ''{}'', follow_object = ''{}''\<rparr>"
  by (simp add: follow_data_def example_Follow_def example_platform_def)

lemma example_Follow_type: "get_prop example_Follow ''type'' = Some (JStr ''Follow'')"
  by (simp add: example_Follow_def)

lemma example_Note_data:
  "note_data example_Create =
     Inr (Some \<lparr>post_id = ''https://remote.example/notes/1'',
                post_content = JStr ''hello'',
                post_userId = ''bob'',
                post_uri = ''https://remote.example/notes/1'',
                post_url = JStr ''https://remote.example/notes/1'',
                isPublic = False,
                contentWarning = JNull, inReplyTo = JNull, sensitive = JBool False\<rparr>)"
  by (simp add: note_data_def example_Create_def example_Note_def field_def json_or_def Public_def)

lemma example_Accept_by_URI_type:
  "get_prop example_Accept_by_URI ''type'' = Some (JStr ''Accept'')"
  by (simp add: example_Accept_by_URI_def)

lemma example_Undo_by_URI_type:
  "get_prop example_Undo_by_URI ''type'' = Some (JStr ''Undo'')"
  by (simp add: example_Undo_by_URI_def)

lemma embedded_Follow_by_URI:
  "get_prop act ''object'' = Some (JStr u) \<Longrightarrow> embedded_Follow act = Some None"
  by (simp add: embedded_Follow_def)

text \<open>
  C6, as amended.  From a database with no row for the pair (a, b), a Follow of b by a,
  then an Accept that embeds the Follow, leave exactly one row for the pair, and its
  status is ACCEPTED; an Undo that embeds the Follow then leaves no row for the pair.
  The Follow names its actor and its object by their URIs, and the database takes the
  row.  An Accept or an Undo whose object is a URI is accepted and changes nothing.
\<close>

theorem follow_accept_undo:
  assumes fresh: "\<not> list_ex (same_pair a b) (follows st)"
    and f: "get_prop f ''type'' = Some (JStr ''Follow'')"
           "get_prop f ''actor'' = Some (JStr a)" "get_prop f ''object'' = Some (JStr b)"
    and acc: "get_prop acc ''type'' = Some (JStr ''Accept'')" "get_prop acc ''object'' = Some f"
    and undo: "get_prop undo ''type'' = Some (JStr ''Undo'')" "get_prop undo ''object'' = Some f"
    and valid: "follow_valid sch \<lparr>followerId = a, followingId = b, follow_status = ''PENDING'',
                    follow_actor = JSON_stringify pf (JStr a),
                    follow_object = JSON_stringify pf (JStr b)\<rparr>"
  shows "map follow_status (filter (same_pair a b)
           (follows (snd (post_inbox pf sch env net2
              (snd (post_inbox pf sch env net1 st f)) acc)))) = [''ACCEPTED'']
       \<and> filter (same_pair a b)
           (follows (snd (post_inbox pf sch env net3
              (snd (post_inbox pf sch env net2
                 (snd (post_inbox pf sch env net1 st f)) acc)) undo))) = []
       \<and> (get_prop act ''object'' = Some (JStr u) \<longrightarrow>
            handleAccept st0 act = (None, st0) \<and> handleUndo st0 act = (None, st0))"
proof -
  have uri: "handleAccept st0 act = (None, st0) \<and> handleUndo st0 act = (None, st0)"
    if "get_prop act ''object'' = Some (JStr u)"
    using embedded_Follow_by_URI [OF that] by (simp add: handleAccept_def handleUndo_def)
  let ?row = "\<lparr>followerId = a, followingId = b, follow_status = ''PENDING'',
                    follow_actor = JSON_stringify pf (JStr a),
                    follow_object = JSON_stringify pf (JStr b)\<rparr>"
  let ?st1 = "snd (post_inbox pf sch env net1 st f)"
  let ?st2 = "snd (post_inbox pf sch env net2 ?st1 acc)"
  let ?st3 = "snd (post_inbox pf sch env net3 ?st2 undo)"
  have fd: "follow_data pf f = Inr ?row"
    using f by (simp add: follow_data_def)
  have fc: "follow_create sch st ?row = Inr (st\<lparr>follows := follows st @ [?row]\<rparr>)"
    using fresh valid by (simp add: follow_create_def)
  have st1: "follows ?st1 = follows st @ [?row]"
    using f fd fc by (simp add: snd_post_inbox handleFollow_def)
  have ea: "embedded_Follow acc = Some (Some (JStr a, JStr b))"
    using acc f by (simp add: embedded_Follow_of)
  have eu: "embedded_Follow undo = Some (Some (JStr a, JStr b))"
    using undo f by (simp add: embedded_Follow_of)
  have st2: "follows ?st2 =
      map (\<lambda>r. if selected (Equals a) (Equals b) r then r\<lparr>follow_status := ''ACCEPTED''\<rparr> else r)
        (follows st @ [?row])"
    using acc ea st1 by (simp add: snd_post_inbox handleAccept_def settle_def follow_updateMany_def)
  have sel: "selected (Equals a) (Equals b) = same_pair a b"
    by (rule ext) (simp add: selected_def same_pair_def)
  have one: "filter (same_pair a b) (follows ?st2) = [?row\<lparr>follow_status := ''ACCEPTED''\<rparr>]"
    using accepted_row_of_pair [OF fresh, of "''ACCEPTED''" ?row] st2 by simp
  have st3: "follows ?st3 = filter (\<lambda>r. \<not> same_pair a b r) (follows ?st2)"
    using undo eu by (simp add: snd_post_inbox handleUndo_def settle_def follow_deleteMany_def sel)
  have zero: "filter (same_pair a b) (follows ?st3) = []"
    unfolding st3 by simp
  from one zero uri show ?thesis by simp
qed

text \<open>The theorem for Bob following Alice, from the empty database.\<close>

theorem follow_accept_undo_example:
  "map follow_status (filter (same_pair ''https://remote.example/users/bob'' ''https://example.com/users/alice'')
           (follows (snd (post_inbox example_platform example_schema Map.empty accepting
              (snd (post_inbox example_platform example_schema Map.empty accepting empty_db example_Follow)) example_Accept)))) = [''ACCEPTED'']
       \<and> filter (same_pair ''https://remote.example/users/bob'' ''https://example.com/users/alice'')
           (follows (snd (post_inbox example_platform example_schema Map.empty accepting
              (snd (post_inbox example_platform example_schema Map.empty accepting
                 (snd (post_inbox example_platform example_schema Map.empty accepting empty_db example_Follow)) example_Accept)) example_Undo))) = []"
  using follow_accept_undo [of "''https://remote.example/users/bob''" "''https://example.com/users/alice''"
     empty_db example_Follow example_Accept example_Undo example_schema example_platform
     Map.empty accepting accepting accepting]
  by (simp add: empty_db_def example_Follow_def example_Accept_def example_Undo_def example_schema_def)

text \<open>C6 as stated fails: after the Follow of Bob, an Accept that names the Follow by
  its URI leaves the row PENDING, and after the embedding Accept an Undo that names the
  Follow by its URI leaves the row in place.\<close>

theorem accept_by_URI_leaves_pending:
  "map follow_status
     (filter (same_pair ''https://remote.example/users/bob'' ''https://example.com/users/alice'')
        (follows (snd (post_inbox example_platform example_schema Map.empty accepting
           (snd (post_inbox example_platform example_schema Map.empty accepting
              empty_db example_Follow)) example_Accept_by_URI)))) = [''PENDING'']
   \<and> map follow_status
     (filter (same_pair ''https://remote.example/users/bob'' ''https://example.com/users/alice'')
        (follows (snd (post_inbox example_platform example_schema Map.empty accepting
           (snd (post_inbox example_platform example_schema Map.empty accepting
              (snd (post_inbox example_platform example_schema Map.empty accepting
                 empty_db example_Follow)) example_Accept)) example_Undo_by_URI)))) = [''ACCEPTED'']"
proof -
  let ?st1 = "snd (post_inbox example_platform example_schema Map.empty accepting
                empty_db example_Follow)"
  have st1: "?st1 = \<lparr>follows = [\<lparr>followerId = ''https://remote.example/users/bob'',
          followingId = ''https://example.com/users/alice'',
          follow_status = ''PENDING'', follow_actor = ''{}'', follow_object = ''{}''\<rparr>],
        posts = []\<rparr>"
    by (simp add: snd_post_inbox example_Follow_type handleFollow_def example_Follow_data
        follow_create_def example_schema_def empty_db_def)
  have acc_uri: "snd (post_inbox example_platform example_schema Map.empty accepting
                   ?st1 example_Accept_by_URI) = ?st1"
    by (simp add: snd_post_inbox example_Accept_by_URI_type handleAccept_def
        embedded_Follow_by_URI example_Accept_by_URI_def)
  let ?st2 = "snd (post_inbox example_platform example_schema Map.empty accepting
                ?st1 example_Accept)"
  have undo_uri: "snd (post_inbox example_platform example_schema Map.empty accepting
                   ?st2 example_Undo_by_URI) = ?st2"
    by (simp add: snd_post_inbox example_Undo_by_URI_type handleUndo_def
        embedded_Follow_by_URI example_Undo_by_URI_def)
  have acc_type: "get_prop example_Accept ''type'' = Some (JStr ''Accept'')"
    by (simp add: example_Accept_def)
  have acc_emb: "embedded_Follow example_Accept =
      Some (Some (JStr ''https://remote.example/users/bob'', JStr ''https://example.com/users/alice''))"
    by (simp add: embedded_Follow_def example_Accept_def example_Follow_def field_def)
  have st2: "map follow_status
     (filter (same_pair ''https://remote.example/users/bob'' ''https://example.com/users/alice'')
        (follows ?st2)) = [''ACCEPTED'']"
    unfolding st1
    by (simp add: snd_post_inbox acc_type handleAccept_def acc_emb settle_def
        follow_updateMany_def selected_def same_pair_def)
  have one: "map follow_status
     (filter (same_pair ''https://remote.example/users/bob'' ''https://example.com/users/alice'')
        (follows ?st1)) = [''PENDING'']"
    unfolding st1 by (simp add: same_pair_def)
  from one st2 show ?thesis
    unfolding acc_uri undo_uri by simp
qed

text \<open>
  C7.  Processing an activity a second time leaves the database as the first
  processing left it: a replayed Follow adds no second row and a replayed Create of a
  Note stores no second Post.  Every inbox operation keeps at most one relationship per
  (follower, following) pair.
\<close>

theorem inbox_idempotent:
  "snd (post_inbox pf sch env net' (snd (post_inbox pf sch env net st act)) act)
     = snd (post_inbox pf sch env net st act)
   \<and> (one_per_pair st \<longrightarrow> one_per_pair (snd (post_inbox pf sch env net st act)))"
  by (simp add: snd_post_inbox handleFollow_twice handleCreate_twice handleUndo_twice
      handleAccept_twice handleReject_twice handleFollow_invariant handleCreate_invariant
      handleUndo_invariant handleAccept_invariant handleReject_invariant split: option.splits)

text \<open>The theorem for the Follow of Bob, replayed: one row.\<close>

theorem inbox_idempotent_example:
  "snd (post_inbox example_platform example_schema Map.empty accepting
      (snd (post_inbox example_platform example_schema Map.empty accepting
         empty_db example_Follow)) example_Follow)
     = snd (post_inbox example_platform example_schema Map.empty accepting
         empty_db example_Follow)
   \<and> one_per_pair (snd (post_inbox example_platform example_schema Map.empty accepting
         empty_db example_Follow))"
  using inbox_idempotent
    [of example_platform example_schema Map.empty accepting accepting empty_db example_Follow]
  by (simp add: example_schema_def empty_db_def one_per_pair_def pairs_def)

text \<open>The replay itself is refused by the database and answered with 500.\<close>

lemma replayed_Follow_answered_500:
  "fst (post_inbox example_platform example_schema Map.empty accepting
      (snd (post_inbox example_platform example_schema Map.empty accepting
         empty_db example_Follow)) example_Follow) = 500"
  by (simp add: post_inbox_def snd_post_inbox example_Follow_type handleFollow_def
      example_Follow_data follow_create_def example_schema_def empty_db_def same_pair_def)

text \<open>
  C8, as amended.  When a Create whose object is a Note is processed without error and
  the \<^verbatim>\<open>to\<close> of the Note is an array, one Post is stored, and it is public exactly when
  that array contains the public collection.  Only the \<^verbatim>\<open>to\<close> of the Note is read:
  neither its \<^verbatim>\<open>cc\<close> nor the addressing of the activity.
\<close>

theorem create_Note_visibility:
  assumes "get_prop activity ''object'' = Some obj"
      and "get_prop obj ''type'' = Some (JStr ''Note'')"
      and "get_prop obj ''to'' = Some (JArr tos)"
      and "handleCreate sch st activity = (None, st')"
  shows "\<exists>row. posts st' = posts st @ [row] \<and> isPublic row = (JStr Public \<in> set tos)"
  using assms
  by (auto simp: handleCreate_def note_data_def field_def post_create_def
      split: option.splits sum.splits if_splits)

text \<open>The theorem for the unlisted Note of the fixtures.\<close>

theorem create_Note_visibility_example:
  "\<exists>row. posts (snd (handleCreate example_schema empty_db example_Create)) = posts empty_db @ [row]
     \<and> isPublic row = (JStr Public \<in> set [JStr ''https://remote.example/users/bob/followers''])"
  using create_Note_visibility [of example_Create example_Note
      "[JStr ''https://remote.example/users/bob/followers'']" example_schema empty_db
      "snd (handleCreate example_schema empty_db example_Create)"]
  by (simp add: handleCreate_def example_Note_data post_create_def example_schema_def empty_db_def)
     (simp add: example_Create_def example_Note_def)

text \<open>C8 as stated fails: the public collection is in the \<^verbatim>\<open>cc\<close> of the activity and
  of the Note, and the Post is stored as not public.\<close>

theorem cc_Public_not_public:
  "map isPublic (posts (snd (handleCreate example_schema empty_db example_Create))) = [False]
   \<and> JStr Public \<in> set (case field example_Create ''cc'' of JArr xs \<Rightarrow> xs | _ \<Rightarrow> [])
   \<and> JStr Public \<in> set (case field example_Note ''cc'' of JArr xs \<Rightarrow> xs | _ \<Rightarrow> [])"
  by (simp add: handleCreate_def example_Note_data post_create_def example_schema_def empty_db_def)
     (simp add: example_Create_def example_Note_def field_def)

section \<open>The verifier\<close>

lemma not_upper_bit5: "\<not> is_upper (Char b0 b1 b2 b3 b4 True b6 b7)"
  by (cases b6; cases b7; simp add: is_upper_def)

lemma lower_char_idem: "lower_char (lower_char c) = lower_char c"
  by (cases c) (simp add: lower_char_def not_upper_bit5)

lemma toLowerCase_idem: "toLowerCase (toLowerCase s) = toLowerCase s"
  by (simp add: toLowerCase_def lower_char_idem)

lemma find_requiredParams:
  "find (\<lambda>param. \<not> truthy (s param)) requiredParams =
     (if \<not> truthy (s ''keyId'') then Some ''keyId''
      else if \<not> truthy (s ''algorithm'') then Some ''algorithm''
      else if \<not> truthy (s ''headers'') then Some ''headers''
      else if \<not> truthy (s ''signature'') then Some ''signature'' else None)"
  by (simp add: requiredParams_def)

lemma verifyParsed_algorithm:
  assumes k: "s1 ''keyId'' = s2 ''keyId''" and h: "s1 ''headers'' = s2 ''headers''"
    and g: "s1 ''signature'' = s2 ''signature''"
    and a1: "truthy (s1 ''algorithm'')" and a2: "truthy (s2 ''algorithm'')"
    and str: "verify_signingString req1 (split_on (CHR '' '') (template (s2 ''headers''))) =
     verify_signingString req2 (split_on (CHR '' '') (template (s2 ''headers'')))"
  shows "map_sum id (\<lambda>v. (keyId v, headers v)) (verifyParsed pf users req1 s1)
       = map_sum id (\<lambda>v. (keyId v, headers v)) (verifyParsed pf users req2 s2)"
proof (cases "find (\<lambda>param. \<not> truthy (s2 param)) requiredParams")
  case (Some p)
  moreover have "find (\<lambda>param. \<not> truthy (s1 param)) requiredParams = Some p"
    using Some k h g a1 a2 by (auto simp: find_requiredParams split: if_splits)
  ultimately show ?thesis by (simp add: verifyParsed_def)
next
  case None
  have None1: "find (\<lambda>param. \<not> truthy (s1 param)) requiredParams = None"
    using None k h g a1 a2 by (auto simp: find_requiredParams split: if_splits)
  show ?thesis
  proof (cases "findPublicKey users (template (s2 ''keyId''))")
    case None
    with \<open>find (\<lambda>param. \<not> truthy (s2 param)) requiredParams = None\<close> None1 k
    show ?thesis by (simp add: verifyParsed_def)
  next
    case (Some pk)
    note pk = this
    show ?thesis
    proof (cases "verify_signingString req2 (split_on (CHR '' '') (template (s2 ''headers'')))")
      case (Inl e)
      with \<open>find (\<lambda>param. \<not> truthy (s2 param)) requiredParams = None\<close> None1 k h pk str
      show ?thesis by (simp add: verifyParsed_def)
    next
      case (Inr signingString)
      note ss = this
      show ?thesis
      proof (cases "crypto_verify pf ''sha256'' signingString pk RSA_PKCS1_PSS_PADDING
                      (base64_decode pf (template (s2 ''signature'')))")
        case (Inl m)
        with \<open>find (\<lambda>param. \<not> truthy (s2 param)) requiredParams = None\<close> None1 k h g pk str ss
        show ?thesis by (simp add: verifyParsed_def)
      next
        case (Inr isValid)
        with \<open>find (\<lambda>param. \<not> truthy (s2 param)) requiredParams = None\<close> None1 k h g pk str ss
        show ?thesis by (simp add: verifyParsed_def)
      qed
    qed
  qed
qed

lemma req_get_agree:
  assumes "\<forall>n. n \<noteq> ''signature'' \<longrightarrow> obj_get (req_headers req1) n = obj_get (req_headers req2) n"
      and "toLowerCase h \<noteq> ''signature''"
  shows "req_get req1 (toLowerCase h) = req_get req2 (toLowerCase h)"
  using assms by (simp add: req_get_def headers_get_def inherited_def Let_def toLowerCase_idem)

lemma verify_lines_agree:
  assumes "req_method req1 = req_method req2" "req_path req1 = req_path req2"
      and "\<forall>n. n \<noteq> ''signature'' \<longrightarrow> obj_get (req_headers req1) n = obj_get (req_headers req2) n"
      and "''signature'' \<notin> set (map toLowerCase names)"
  shows "verify_lines req1 names = verify_lines req2 names"
  using assms(4)
proof (induction names)
  case Nil
  show ?case by simp
next
  case (Cons h hs)
  then have "toLowerCase h \<noteq> ''signature''" by auto
  then have "req_get req1 (toLowerCase h) = req_get req2 (toLowerCase h)"
    using assms(3) by (rule req_get_agree [rotated])
  then have "verify_line req1 h = verify_line req2 h"
    using assms(1,2) by (simp add: verify_line_def)
  moreover have "verify_lines req1 hs = verify_lines req2 hs"
    using Cons by simp
  ultimately show ?case by (simp only: verify_lines.simps)
qed

lemma verifyParsed_sha256_pss:
  "verifyParsed (pf\<lparr>crypto_verify :=
       (\<lambda>alg d k p sg. crypto_verify pf ''sha256'' d k RSA_PKCS1_PSS_PADDING sg)\<rparr>) users req s
     = verifyParsed pf users req s"
  unfolding verifyParsed_def Let_def
  by (simp cong: option.case_cong sum.case_cong)

lemma verifySignature_sha256_pss:
  "verifySignature (pf\<lparr>crypto_verify :=
       (\<lambda>alg d k p sg. crypto_verify pf ''sha256'' d k RSA_PKCS1_PSS_PADDING sg)\<rparr>) users req
   = verifySignature pf users req"
  unfolding verifySignature_def verifyParsed_sha256_pss ..

lemma parse_rsa:
  "parseSignatureHeader (req_get (signed_request ''https://example.com/users/alice'' ''rsa-sha256'') ''signature'')
   = Some [''keyId'' \<mapsto> ''https://example.com/users/alice'', ''algorithm'' \<mapsto> ''rsa-sha256'',
           ''headers'' \<mapsto> ''(request-target) host date'', ''signature'' \<mapsto> ''c2lnbmF0dXJl'']"
  by (simp add: signed_request_def req_get_def headers_get_def inherited_def obj_get_def toLowerCase_def lower_char_def is_upper_def parse_defs)

lemma parse_hs2019:
  "parseSignatureHeader (req_get (signed_request ''https://example.com/users/alice'' ''hs2019'') ''signature'')
   = Some [''keyId'' \<mapsto> ''https://example.com/users/alice'', ''algorithm'' \<mapsto> ''hs2019'',
           ''headers'' \<mapsto> ''(request-target) host date'', ''signature'' \<mapsto> ''c2lnbmF0dXJl'']"
  by (simp add: signed_request_def req_get_def headers_get_def inherited_def obj_get_def toLowerCase_def lower_char_def is_upper_def parse_defs)

lemma verifyParsed_decided_by_crypto:
  assumes "\<forall>p \<in> set requiredParams. truthy (s p)"
      and "findPublicKey users (template (s ''keyId'')) = Some pk"
      and "verify_signingString req (split_on (CHR '' '') (template (s ''headers''))) = Inr str"
  shows "verifyParsed pf users req s =
           (case crypto_verify pf ''sha256'' str pk RSA_PKCS1_PSS_PADDING
                   (base64_decode pf (template (s ''signature''))) of
              Inl m \<Rightarrow> Inl (CryptoError m)
            | Inr isValid \<Rightarrow>
                if isValid
                then Inr \<lparr>keyId = template (s ''keyId''),
                          algorithm = template (s ''algorithm''),
                          headers = template (s ''headers'')\<rparr>
                else Inl InvalidSignature)"
proof -
  have "find (\<lambda>param. \<not> truthy (s param)) requiredParams = None"
    using assms(1) by (simp add: find_None_iff)
  then show ?thesis
    using assms(2,3)
    by (cases "crypto_verify pf ''sha256'' str pk RSA_PKCS1_PSS_PADDING
                 (base64_decode pf (template (s ''signature'')))")
       (simp_all add: verifyParsed_def)
qed

text \<open>
  C9, as amended.  Take two requests with the same method, path and headers other than
  the Signature header, whose Signature headers are parsed to the same key id, header
  list and signature, and each to some non-empty algorithm; the header list does not
  name the Signature header itself.  Then the verifier fails on both with the same
  error, or verifies both with the same key id and header list.  When the four
  parameters are there, the key is found and the signing string is built, the result
  is what \<^verbatim>\<open>crypto.verify\<close> answers for sha256 and the PSS padding on that string, key
  and signature: verified when it answers true, the invalid-signature error when it
  answers false, its error when it throws; the algorithm is only echoed.  The result
  is the same when the platform's function is replaced by its restriction to sha256
  and PSS.  And on one request, changing the parsed algorithm from one non-empty value
  to another changes nothing but the algorithm the result echoes.
\<close>

theorem algorithm_value_ignored:
  assumes "req_method req1 = req_method req2" and "req_path req1 = req_path req2"
      and "\<forall>n. n \<noteq> ''signature'' \<longrightarrow> obj_get (req_headers req1) n = obj_get (req_headers req2) n"
      and "parseSignatureHeader (req_get req1 ''signature'') = Some s1"
      and "parseSignatureHeader (req_get req2 ''signature'') = Some s2"
      and "s1 ''keyId'' = s2 ''keyId''" and "s1 ''headers'' = s2 ''headers''"
      and "s1 ''signature'' = s2 ''signature''"
      and "truthy (s1 ''algorithm'')" and "truthy (s2 ''algorithm'')"
      and "''signature'' \<notin> set (map toLowerCase (split_on (CHR '' '') (template (s2 ''headers''))))"
      and "a \<noteq> []" and "a' \<noteq> []"
  shows "map_sum id (\<lambda>v. (keyId v, headers v)) (verifySignature pf users req1)
           = map_sum id (\<lambda>v. (keyId v, headers v)) (verifySignature pf users req2)
       \<and> verifySignature (pf\<lparr>crypto_verify :=
             (\<lambda>alg d k p sg. crypto_verify pf ''sha256'' d k RSA_PKCS1_PSS_PADDING sg)\<rparr>) users req1
           = verifySignature pf users req1
       \<and> map_sum id (\<lambda>v. (keyId v, headers v))
             (verifyParsed pf users req (s(''algorithm'' \<mapsto> a)))
           = map_sum id (\<lambda>v. (keyId v, headers v))
             (verifyParsed pf users req (s(''algorithm'' \<mapsto> a')))
       \<and> ((\<forall>p \<in> set requiredParams. truthy (s1 p)) \<and>
           findPublicKey users (template (s1 ''keyId'')) = Some pk \<and>
           verify_signingString req1 (split_on (CHR '' '') (template (s1 ''headers''))) = Inr str \<longrightarrow>
           verifySignature pf users req1 =
             (case crypto_verify pf ''sha256'' str pk RSA_PKCS1_PSS_PADDING
                     (base64_decode pf (template (s1 ''signature''))) of
                Inl m \<Rightarrow> Inl (CryptoError m)
              | Inr isValid \<Rightarrow>
                  if isValid
                  then Inr \<lparr>keyId = template (s1 ''keyId''),
                            algorithm = template (s1 ''algorithm''),
                            headers = template (s1 ''headers'')\<rparr>
                  else Inl InvalidSignature))"
proof -
  have crypto: "verifySignature pf users req1 =
             (case crypto_verify pf ''sha256'' str pk RSA_PKCS1_PSS_PADDING
                     (base64_decode pf (template (s1 ''signature''))) of
                Inl m \<Rightarrow> Inl (CryptoError m)
              | Inr isValid \<Rightarrow>
                  if isValid
                  then Inr \<lparr>keyId = template (s1 ''keyId''),
                            algorithm = template (s1 ''algorithm''),
                            headers = template (s1 ''headers'')\<rparr>
                  else Inl InvalidSignature)"
    if "\<forall>p \<in> set requiredParams. truthy (s1 p)"
      and "findPublicKey users (template (s1 ''keyId'')) = Some pk"
      and "verify_signingString req1 (split_on (CHR '' '') (template (s1 ''headers''))) = Inr str"
    using verifyParsed_decided_by_crypto [OF that, of pf] assms(4)
    by (simp add: verifySignature_def)
  have parsed: "map_sum id (\<lambda>v. (keyId v, headers v))
             (verifyParsed pf users req (s(''algorithm'' \<mapsto> a)))
           = map_sum id (\<lambda>v. (keyId v, headers v))
             (verifyParsed pf users req (s(''algorithm'' \<mapsto> a')))"
    using assms(12,13) by (intro verifyParsed_algorithm) simp_all
  have "verify_signingString req1 (split_on (CHR '' '') (template (s2 ''headers''))) =
        verify_signingString req2 (split_on (CHR '' '') (template (s2 ''headers'')))"
    using verify_lines_agree [OF assms(1-3) assms(11)] by (simp add: verify_signingString_def)
  then have "map_sum id (\<lambda>v. (keyId v, headers v)) (verifyParsed pf users req1 s1)
       = map_sum id (\<lambda>v. (keyId v, headers v)) (verifyParsed pf users req2 s2)"
    using assms(6-10) by (rule verifyParsed_algorithm [rotated 5])
  then have two: "map_sum id (\<lambda>v. (keyId v, headers v)) (verifySignature pf users req1)
           = map_sum id (\<lambda>v. (keyId v, headers v)) (verifySignature pf users req2)"
    using assms(4,5) by (simp add: verifySignature_def)
  have restricted: "verifySignature (pf\<lparr>crypto_verify :=
             (\<lambda>alg d k p sg. crypto_verify pf ''sha256'' d k RSA_PKCS1_PSS_PADDING sg)\<rparr>) users req1
           = verifySignature pf users req1"
    by (rule verifySignature_sha256_pss)
  from two restricted parsed crypto show ?thesis by blast
qed

text \<open>The theorem for the algorithms rsa-sha256 and hs2019: both requests are verified
  on the platform that accepts every signature, and the second is refused on a
  platform whose \<^verbatim>\<open>crypto.verify\<close> answers false.\<close>

theorem algorithm_value_ignored_example:
  "map_sum id (\<lambda>v. (keyId v, headers v))
      (verifySignature example_platform example_users
         (signed_request ''https://example.com/users/alice'' ''rsa-sha256''))
   = map_sum id (\<lambda>v. (keyId v, headers v))
      (verifySignature example_platform example_users
         (signed_request ''https://example.com/users/alice'' ''hs2019''))
   \<and> verifySignature example_platform example_users
         (signed_request ''https://example.com/users/alice'' ''hs2019'')
       = Inr \<lparr>keyId = ''https://example.com/users/alice'', algorithm = ''hs2019'',
              headers = ''(request-target) host date''\<rparr>
   \<and> verifySignature (example_platform\<lparr>crypto_verify := (\<lambda>alg d k p sg. Inr False)\<rparr>)
         example_users (signed_request ''https://example.com/users/alice'' ''hs2019'')
       = Inl InvalidSignature"
proof -
  have c: "verifySignature (example_platform\<lparr>crypto_verify := (\<lambda>alg d k p sg. Inr False)\<rparr>)
         example_users (signed_request ''https://example.com/users/alice'' ''hs2019'')
       = Inl InvalidSignature"
    unfolding verifySignature_def parse_hs2019
    by (simp add: verifyParsed_def requiredParams_def findPublicKey_def example_users_def
        verify_signingString_def verify_line_def signed_request_def req_get_def
        headers_get_def inherited_def obj_get_def toLowerCase_def lower_char_def is_upper_def
        example_platform_def)
  have a: "map_sum id (\<lambda>v. (keyId v, headers v))
      (verifySignature example_platform example_users
         (signed_request ''https://example.com/users/alice'' ''rsa-sha256''))
   = map_sum id (\<lambda>v. (keyId v, headers v))
      (verifySignature example_platform example_users
         (signed_request ''https://example.com/users/alice'' ''hs2019''))"
    using algorithm_value_ignored
      [OF _ _ _ parse_rsa parse_hs2019,
       where pf = example_platform and users = example_users
         and a = "''rsa-sha256''" and a' = "''hs2019''"]
    by (simp add: signed_request_def obj_get_def toLowerCase_def lower_char_def is_upper_def)
  have b: "verifySignature example_platform example_users
         (signed_request ''https://example.com/users/alice'' ''hs2019'')
       = Inr \<lparr>keyId = ''https://example.com/users/alice'', algorithm = ''hs2019'',
              headers = ''(request-target) host date''\<rparr>"
    unfolding verifySignature_def parse_hs2019
    by (simp add: verifyParsed_def requiredParams_def findPublicKey_def example_users_def
        verify_signingString_def verify_line_def signed_request_def req_get_def headers_get_def inherited_def obj_get_def
        toLowerCase_def lower_char_def is_upper_def example_platform_def)
  from a b c show ?thesis by simp
qed

text \<open>C9 as stated fails: two requests that differ only in the text of the algorithm
  field, both non-empty.  The parser cuts the header at every comma, so the second
  algorithm text sets the key id anew; the first request is verified and the second
  fails with the actor-not-found error.\<close>

theorem algorithm_text_changes_outcome:
  "verifySignature example_platform example_users
      (signed_request ''https://example.com/users/alice'' ''rsa-sha256'')
     = Inr \<lparr>keyId = ''https://example.com/users/alice'', algorithm = ''rsa-sha256'',
            headers = ''(request-target) host date''\<rparr>
   \<and> verifySignature example_platform example_users
      (signed_request ''https://example.com/users/alice''
         ''x,keyId=https://example.com/users/mallory'')
     = Inl (ActorNotFound ''https://example.com/users/mallory'')"
proof -
  have p2: "parseSignatureHeader
     (req_get (signed_request ''https://example.com/users/alice''
        ''x,keyId=https://example.com/users/mallory'') ''signature'')
   = Some [''keyId'' \<mapsto> ''https://example.com/users/alice'', ''algorithm'' \<mapsto> ''x'',
           ''keyId'' \<mapsto> ''https://example.com/users/mallory'',
           ''headers'' \<mapsto> ''(request-target) host date'', ''signature'' \<mapsto> ''c2lnbmF0dXJl'']"
    by (simp add: signed_request_def req_get_def headers_get_def inherited_def obj_get_def
        toLowerCase_def lower_char_def is_upper_def parse_defs)
  have one: "verifySignature example_platform example_users
      (signed_request ''https://example.com/users/alice'' ''rsa-sha256'')
     = Inr \<lparr>keyId = ''https://example.com/users/alice'', algorithm = ''rsa-sha256'',
            headers = ''(request-target) host date''\<rparr>"
    unfolding verifySignature_def parse_rsa
    by (simp add: verifyParsed_def requiredParams_def findPublicKey_def example_users_def
        verify_signingString_def verify_line_def signed_request_def req_get_def
        headers_get_def inherited_def obj_get_def toLowerCase_def lower_char_def is_upper_def
        example_platform_def)
  have two: "verifySignature example_platform example_users
      (signed_request ''https://example.com/users/alice''
         ''x,keyId=https://example.com/users/mallory'')
     = Inl (ActorNotFound ''https://example.com/users/mallory'')"
    unfolding verifySignature_def p2
    by (simp add: verifyParsed_def requiredParams_def findPublicKey_def example_users_def)
  from one two show ?thesis by simp
qed

lemma findPublicKey_None:
  "k \<notin> set (map actorUrl users) \<Longrightarrow> findPublicKey users k = None"
proof -
  assume "k \<notin> set (map actorUrl users)"
  then have "find (\<lambda>u. actorUrl u = k) users = None"
    by (auto simp: find_None_iff)
  then show ?thesis by (simp add: findPublicKey_def)
qed

lemma parse_fragment:
  "parseSignatureHeader
     (req_get (signed_request ''https://example.com/users/alice#main-key'' ''rsa-sha256'')
        ''signature'')
   = Some [''keyId'' \<mapsto> ''https://example.com/users/alice#main-key'',
           ''algorithm'' \<mapsto> ''rsa-sha256'',
           ''headers'' \<mapsto> ''(request-target) host date'',
           ''signature'' \<mapsto> ''c2lnbmF0dXJl'']"
  by (simp add: signed_request_def req_get_def headers_get_def inherited_def obj_get_def toLowerCase_def lower_char_def
      is_upper_def parse_defs)

text \<open>
  C10, as amended.  When the Signature header of a request is parsed to the four
  parameters and the key id it is parsed to is not the actorUrl of any user, character
  for character, \<^verbatim>\<open>verifySignature\<close> fails with the actor-not-found error.  The
  middleware then answers 401 with that error as its details, except under the
  development bypass, where it calls \<^verbatim>\<open>next()\<close> and verifies nothing.
\<close>

theorem unknown_keyId_rejected:
  assumes "parseSignatureHeader (req_get req ''signature'') = Some s"
      and "\<forall>p \<in> set requiredParams. truthy (s p)"
      and "s ''keyId'' = Some k"
      and "k \<notin> set (map actorUrl users)"
  shows "verifySignature pf users req = Inl (ActorNotFound k)
       \<and> httpSignature pf users env req =
           (if env ''NODE_ENV'' = Some ''development'' \<and>
               env ''SKIP_SIGNATURE_VERIFICATION'' = Some ''true''
            then Next None
            else Respond 401 ''Invalid signature''
                   (''Actor not found or has no public key: '' @ k))"
proof -
  have "find (\<lambda>param. \<not> truthy (s param)) requiredParams = None"
    using assms(2) by (simp add: find_None_iff)
  then have "verifyParsed pf users req s = Inl (ActorNotFound k)"
    using assms(3,4) by (simp add: verifyParsed_def Let_def findPublicKey_None)
  then have "verifySignature pf users req = Inl (ActorNotFound k)"
    using assms(1) by (simp add: verifySignature_def)
  then show ?thesis by (simp add: httpSignature_def)
qed

text \<open>The theorem for a key id that is Alice's actor URL followed by the fragment
  \<^verbatim>\<open>#main-key\<close>.\<close>

theorem fragment_keyId_rejected:
  "verifySignature example_platform example_users
      (signed_request ''https://example.com/users/alice#main-key'' ''rsa-sha256'')
     = Inl (ActorNotFound ''https://example.com/users/alice#main-key'')
   \<and> httpSignature example_platform example_users Map.empty
      (signed_request ''https://example.com/users/alice#main-key'' ''rsa-sha256'')
     = Respond 401 ''Invalid signature''
         ''Actor not found or has no public key: https://example.com/users/alice#main-key''"
  using unknown_keyId_rejected
    [OF parse_fragment, of "''https://example.com/users/alice#main-key''" example_users
        example_platform Map.empty]
  by (simp add: requiredParams_def example_users_def)

text \<open>C10 as stated fails twice.  Under the development bypass the request with the
  fragment in its key id passes the middleware and gets no 401.  And a key id that is
  Alice's actor URL followed by \<^verbatim>\<open>,x\<close>, which is the actorUrl of no user, is cut at the
  comma by the parser and finds Alice's key.\<close>

theorem keyId_not_an_actorUrl_passes:
  "httpSignature example_platform example_users bypass_env
      (signed_request ''https://example.com/users/alice#main-key'' ''rsa-sha256'') = Next None
   \<and> ''https://example.com/users/alice,x'' \<notin> set (map actorUrl example_users)
   \<and> verifySignature example_platform example_users
        (signed_request ''https://example.com/users/alice,x'' ''rsa-sha256'')
       = Inr \<lparr>keyId = ''https://example.com/users/alice'', algorithm = ''rsa-sha256'',
              headers = ''(request-target) host date''\<rparr>"
proof -
  have p: "parseSignatureHeader
     (req_get (signed_request ''https://example.com/users/alice,x'' ''rsa-sha256'') ''signature'')
   = Some [''keyId'' \<mapsto> ''https://example.com/users/alice'', ''algorithm'' \<mapsto> ''rsa-sha256'',
           ''headers'' \<mapsto> ''(request-target) host date'', ''signature'' \<mapsto> ''c2lnbmF0dXJl'']"
    by (simp add: signed_request_def req_get_def headers_get_def inherited_def obj_get_def
        toLowerCase_def lower_char_def is_upper_def parse_defs)
  have v: "verifySignature example_platform example_users
        (signed_request ''https://example.com/users/alice,x'' ''rsa-sha256'')
       = Inr \<lparr>keyId = ''https://example.com/users/alice'', algorithm = ''rsa-sha256'',
              headers = ''(request-target) host date''\<rparr>"
    unfolding verifySignature_def p
    by (simp add: verifyParsed_def requiredParams_def findPublicKey_def example_users_def
        verify_signingString_def verify_line_def signed_request_def req_get_def
        headers_get_def inherited_def obj_get_def toLowerCase_def lower_char_def is_upper_def
        example_platform_def)
  have b: "httpSignature example_platform example_users bypass_env
      (signed_request ''https://example.com/users/alice#main-key'' ''rsa-sha256'') = Next None"
    by (simp add: httpSignature_def bypass_env_def)
  from b v show ?thesis by (simp add: example_users_def)
qed

end
